theory Spec2Isabelle
  imports Complex_Main "HOL-Library.Sublist"
begin

section \<open>Strings and paths\<close>

text \<open>
  The orchestrator of \<^verbatim>\<open>detection/process_video.py\<close> manipulates paths as plain Python
  strings.  The few functions of the Python standard library it applies to them are written out
  here in their POSIX form (\<^verbatim>\<open>posixpath\<close>); Python floats are modelled as reals.
\<close>

text \<open>\<^verbatim>\<open>s.startswith(p)\<close> and \<^verbatim>\<open>s.endswith(p)\<close>.\<close>

definition startswith :: "string \<Rightarrow> string \<Rightarrow> bool" where
  "startswith s p = prefix p s"

definition endswith :: "string \<Rightarrow> string \<Rightarrow> bool" where
  "endswith s p = suffix p s"

text \<open>
  \<^verbatim>\<open>os.path.join(a, b)\<close>: an absolute second component replaces the first; otherwise the
  components are joined by one separator unless the first is empty or already ends in one.
\<close>

definition path_join :: "string \<Rightarrow> string \<Rightarrow> string" where
  "path_join a b =
     (if startswith b ''/'' then b
      else if a = [] \<or> endswith a ''/'' then a @ b
      else a @ ''/'' @ b)"

text \<open>\<^verbatim>\<open>os.path.basename(p)\<close>: everything after the last separator.\<close>

definition basename :: "string \<Rightarrow> string" where
  "basename p = rev (takeWhile (\<lambda>c. c \<noteq> CHR ''/'') (rev p))"

text \<open>
  \<^verbatim>\<open>os.path.dirname(p)\<close>: everything up to the last separator, with trailing separators
  stripped unless the head consists of separators only.
\<close>

definition dirname :: "string \<Rightarrow> string" where
  "dirname p =
     (let head = rev (dropWhile (\<lambda>c. c \<noteq> CHR ''/'') (rev p))
      in if head \<noteq> [] \<and> head \<noteq> replicate (length head) (CHR ''/'')
         then rev (dropWhile (\<lambda>c. c = CHR ''/'') (rev head))
         else head)"

text \<open>
  \<^verbatim>\<open>s.replace(old, new)\<close> for a non-empty \<open>old\<close>: every non-overlapping occurrence,
  scanning from the left.  (The source only calls it with \<open>old = '.json'\<close>.)
\<close>

function str_replace :: "string \<Rightarrow> string \<Rightarrow> string \<Rightarrow> string" where
  "str_replace old new s =
     (if s = [] \<or> old = [] then s
      else if prefix old s then new @ str_replace old new (drop (length old) s)
      else hd s # str_replace old new (tl s))"
  by pat_completeness auto
termination
  by (relation "measure (\<lambda>(old, new, s). length s)") (auto simp: neq_Nil_conv)

declare str_replace.simps [simp del]





section \<open>Options\<close>

text \<open>
  The class \<^verbatim>\<open>ProcessVideoOptions\<close>.  Attributes whose default or whose command-line value
  may be \<^verbatim>\<open>None\<close>, or which the code tests against \<^verbatim>\<open>None\<close>, are options.
\<close>

record ProcessVideoOptions =
  model_file :: string
  input_video_file :: string
  output_json_file :: "string option"
  output_video_file :: "string option"
  frame_folder :: "string option"
  frame_rendering_folder :: "string option"
  render_output_video :: bool
  keep_rendered_frames :: bool
  keep_extracted_frames :: bool
  force_extracted_frame_folder_deletion :: bool
  force_rendered_frame_folder_deletion :: bool
  reuse_results_if_available :: bool
  reuse_frames_if_available :: bool
  recursive :: bool
  verbose :: bool
  fourcc :: "string option"
  rendering_confidence_threshold :: "real option"
  json_confidence_threshold :: "real option"
  frame_sample :: "int option"
  n_cores :: "int option"
  debug_max_frames :: "int option"
  class_mapping_filename :: "string option"

text \<open>The class-level defaults of \<^verbatim>\<open>ProcessVideoOptions\<close>.\<close>

definition default_options :: ProcessVideoOptions where
  "default_options =
     \<lparr> model_file = ''MDV5A'', input_video_file = '''',
       output_json_file = None, output_video_file = None,
       frame_folder = None, frame_rendering_folder = None,
       render_output_video = False,
       keep_rendered_frames = False, keep_extracted_frames = False,
       force_extracted_frame_folder_deletion = False,
       force_rendered_frame_folder_deletion = False,
       reuse_results_if_available = False, reuse_frames_if_available = False,
       recursive = False, verbose = False, fourcc = None,
       rendering_confidence_threshold = None,
       json_confidence_threshold = Some (5 / 1000),
       frame_sample = None, n_cores = Some 1, debug_max_frames = Some (- 1),
       class_mapping_filename = None \<rparr>"

section \<open>Command-line reproduction\<close>





section \<open>Errors, effects and the environment\<close>

text \<open>The exceptions that can travel through the orchestrator.\<close>

datatype err =
    OSError string
  | AttributeError string
  | NameError string
  | UnboundLocalError string
  | AssertionError string
  | TypeError string
  | ValueError string
  | IndexError string
  | ZeroDivisionError
  | ExternalError string

text \<open>
  Detection results: one entry per image, each with its detections (category, confidence,
  bounding box).  A persisted result artifact also carries the detector, the base the file names
  are relative to, and the frame rate metadata (one rate for a video, a list for a folder).
\<close>

type_synonym detection = "string \<times> real \<times> real list"
type_synonym results = "(string \<times> detection list) list"

datatype fps_metadata = FrameRate real | FrameRates "real list"

record artifact =
  art_images :: results
  art_detector :: string
  art_base :: string
  art_frame_rate :: fps_metadata

datatype file_content = Json artifact | NotJson

text \<open>What \<^verbatim>\<open>process_video\<close> returns: the loaded JSON document or the detector's results.\<close>

datatype frame_results = Loaded artifact | Detected results

text \<open>The messages the orchestrator prints, with the values formatted into them.\<close>

datatype message =
    LoadingResults string
  | RenderingVideo "string option" real real
  | WarnDeletingRendered string err
  | RecursivelyDeleting string
  | WarnRemovingExtracted string err
  | ExtractingFrames
  | NoVideosFound string
  | NoFramesExtracted string
  | RunningMegaDetector
  | ConvertingResults
  | RenderingDetections string string real real
  | DeletingFrameCache
  | WarnDeletingFrames string err

text \<open>
  The calls the orchestrator makes to the file system and to its collaborators, in the order
  made.  A call is recorded when it is made, whether or not it then raises.
\<close>

datatype event =
    Makedirs string
  | VideoToFrames string string "int option" bool
  | VideoFolderToFrames string string bool bool "int option" "int option" bool
  | JsonLoad string
  | RunDetector string "string list" "real option" "int option" bool "string option"
  | WriteResults results string string string fps_metadata
  | FrameToVideoResults string string
  | Visualize string string string "real option" bool
  | FramesToVideo "string list" real "string option" "string option"
  | Rmtree string
  | Remove string
  | Print message

record world =
  events :: "event list"
  files :: "string \<rightharpoonup> file_content"
  uuids_drawn :: nat

text \<open>
  The environment fixes what the collaborators and the operating system answer: the system
  temporary directory, the user name, the successive values of \<^verbatim>\<open>str(uuid1())\<close>, which
  file-system calls raise, and the results of the frame extractor (\<^verbatim>\<open>video_to_frames\<close>,
  \<^verbatim>\<open>video_folder_to_frames\<close>), the detector (\<^verbatim>\<open>load_and_run_detector_batch\<close>), the result
  writer, the aggregator (\<^verbatim>\<open>frame_results_to_video_results\<close>), the renderer
  (\<^verbatim>\<open>visualize_detector_output\<close>, which may read the files written so far) and the assembler
  (\<^verbatim>\<open>frames_to_video\<close>).
\<close>

record env =
  gettempdir :: string
  getuser :: string
  uuid_gen :: "nat \<Rightarrow> string"
  makedirs_err :: "string \<Rightarrow> err option"
  rmtree_err :: "string \<Rightarrow> err option"
  remove_err :: "string \<Rightarrow> err option"
  isdir :: "string \<Rightarrow> bool"
  relpath :: "string \<Rightarrow> string \<Rightarrow> string"
  insert_before_extension :: "string \<Rightarrow> string \<Rightarrow> string \<Rightarrow> string"
  video_to_frames :: "string \<Rightarrow> string \<Rightarrow> int option \<Rightarrow> bool \<Rightarrow> err + (string list \<times> real)"
  video_folder_to_frames ::
    "string \<Rightarrow> string \<Rightarrow> bool \<Rightarrow> bool \<Rightarrow> int option \<Rightarrow> int option \<Rightarrow> bool
      \<Rightarrow> err + (string list list \<times> real list \<times> string list)"
  load_and_run_detector_batch ::
    "string \<Rightarrow> string list \<Rightarrow> real option \<Rightarrow> int option \<Rightarrow> bool \<Rightarrow> string option
      \<Rightarrow> err + results"
  write_results_err :: "string \<Rightarrow> err option"
  frame_results_to_video_results :: "artifact \<Rightarrow> err + artifact"
  visualize_detector_output ::
    "(string \<rightharpoonup> file_content) \<Rightarrow> string \<Rightarrow> string \<Rightarrow> string \<Rightarrow> real option \<Rightarrow> bool
      \<Rightarrow> err + string list"
  frames_to_video_err :: "string list \<Rightarrow> real \<Rightarrow> string option \<Rightarrow> string option \<Rightarrow> err option"

subsection \<open>Sequencing with exceptions\<close>

type_synonym 'a action = "world \<Rightarrow> (err + 'a) \<times> world"

definition ret :: "'a \<Rightarrow> 'a action" where
  "ret a = (\<lambda>w. (Inr a, w))"

definition throw :: "err \<Rightarrow> 'a action" where
  "throw e = (\<lambda>w. (Inl e, w))"

definition bnd :: "'a action \<Rightarrow> ('a \<Rightarrow> 'b action) \<Rightarrow> 'b action" where
  "bnd m f = (\<lambda>w. case m w of (Inl e, w') \<Rightarrow> (Inl e, w') | (Inr a, w') \<Rightarrow> f a w')"

text \<open>\<^verbatim>\<open>try: m  except Exception as e: h(e)\<close>.\<close>

definition try_except :: "'a action \<Rightarrow> (err \<Rightarrow> 'a action) \<Rightarrow> 'a action" where
  "try_except m h = (\<lambda>w. case m w of (Inl e, w') \<Rightarrow> h e w' | (Inr a, w') \<Rightarrow> (Inr a, w'))"

text \<open>\<^verbatim>\<open>for x in xs: f(x)\<close>; an exception leaves the loop.\<close>

fun for_each :: "('a \<Rightarrow> unit action) \<Rightarrow> 'a list \<Rightarrow> unit action" where
  "for_each f [] = ret ()"
| "for_each f (x # xs) = bnd (f x) (\<lambda>_. for_each f xs)"

definition emit :: "event \<Rightarrow> unit action" where
  "emit ev = (\<lambda>w. (Inr (), w\<lparr>events := events w @ [ev]\<rparr>))"

text \<open>A call that returns nothing and may raise, and one that returns a value or raises.\<close>

definition guarded :: "event \<Rightarrow> err option \<Rightarrow> unit action" where
  "guarded ev r = bnd (emit ev) (\<lambda>_. case r of None \<Rightarrow> ret () | Some e \<Rightarrow> throw e)"

definition call :: "event \<Rightarrow> err + 'a \<Rightarrow> 'a action" where
  "call ev r = bnd (emit ev) (\<lambda>_. case r of Inl e \<Rightarrow> throw e | Inr a \<Rightarrow> ret a)"

subsection \<open>The calls\<close>

definition print :: "message \<Rightarrow> unit action" where
  "print m = emit (Print m)"

definition makedirs :: "env \<Rightarrow> string \<Rightarrow> unit action" where
  "makedirs E p = guarded (Makedirs p) (makedirs_err E p)"

definition rmtree :: "env \<Rightarrow> string \<Rightarrow> unit action" where
  "rmtree E p = guarded (Rmtree p) (rmtree_err E p)"

definition remove :: "env \<Rightarrow> string \<Rightarrow> unit action" where
  "remove E p = guarded (Remove p) (remove_err E p)"

definition uuid1 :: "env \<Rightarrow> string action" where
  "uuid1 E = (\<lambda>w. (Inr (uuid_gen E (uuids_drawn w)), w\<lparr>uuids_drawn := Suc (uuids_drawn w)\<rparr>))"

definition isfile :: "string \<Rightarrow> bool action" where
  "isfile p = (\<lambda>w. (Inr (files w p \<noteq> None), w))"

text \<open>\<^verbatim>\<open>with open(p,'r') as f: json.load(f)\<close>.\<close>

definition json_load :: "string \<Rightarrow> artifact action" where
  "json_load p = (\<lambda>w.
     call (JsonLoad p)
       (case files w p of
          None \<Rightarrow> Inl (OSError ''FileNotFoundError'')
        | Some NotJson \<Rightarrow> Inl (ValueError ''JSONDecodeError'')
        | Some (Json a) \<Rightarrow> Inr a) w)"

definition run_detector ::
  "env \<Rightarrow> string \<Rightarrow> string list \<Rightarrow> real option \<Rightarrow> int option \<Rightarrow> bool \<Rightarrow> string option
    \<Rightarrow> results action" where
  "run_detector E model images threshold cores quiet class_mapping =
     call (RunDetector model images threshold cores quiet class_mapping)
       (load_and_run_detector_batch E model images threshold cores quiet class_mapping)"

definition write_results_to_file ::
  "env \<Rightarrow> results \<Rightarrow> string \<Rightarrow> string \<Rightarrow> string \<Rightarrow> fps_metadata \<Rightarrow> unit action" where
  "write_results_to_file E res path base detector meta =
     bnd (guarded (WriteResults res path base detector meta) (write_results_err E path))
       (\<lambda>_ w. (Inr (), w\<lparr>files := (files w)(path \<mapsto>
           Json \<lparr>art_images = res, art_detector = detector, art_base = base,
                 art_frame_rate = meta\<rparr>)\<rparr>))"

definition visualize ::
  "env \<Rightarrow> string \<Rightarrow> string \<Rightarrow> string \<Rightarrow> real option \<Rightarrow> bool \<Rightarrow> string list action" where
  "visualize E detector_output_path out_dir images_dir threshold preserve = (\<lambda>w.
     call (Visualize detector_output_path out_dir images_dir threshold preserve)
       (visualize_detector_output E (files w) detector_output_path out_dir images_dir
          threshold preserve) w)"

definition frames_to_video ::
  "env \<Rightarrow> string list \<Rightarrow> real \<Rightarrow> string option \<Rightarrow> string option \<Rightarrow> unit action" where
  "frames_to_video E frame_files fs output codec =
     guarded (FramesToVideo frame_files fs output codec)
       (frames_to_video_err E frame_files fs output codec)"

section \<open>Processing a single video\<close>

text \<open>Lines 105-109: the default output paths; returns the options and the JSON path.\<close>

definition resolve_outputs :: "ProcessVideoOptions \<Rightarrow> ProcessVideoOptions \<times> string" where
  "resolve_outputs options =
     (let json = (case output_json_file options of
                    None \<Rightarrow> input_video_file options @ ''.json'' | Some j \<Rightarrow> j);
          options1 = options\<lparr>output_json_file := Some json\<rparr>;
          options2 = (if render_output_video options1 \<and> output_video_file options1 = None
                      then options1\<lparr>output_video_file :=
                             Some (input_video_file options1 @ ''.detections.mp4'')\<rparr>
                      else options1)
      in (options2, json))"

text \<open>
  Lines 111-130: the temporary directories and the frame folder, with the flag that records
  whether the frame folder was created here.
\<close>

definition pv_workspace :: "env \<Rightarrow> ProcessVideoOptions \<Rightarrow> (string \<times> string \<times> bool) action" where
  "pv_workspace E options =
     (let tempdir = path_join (gettempdir E) ''process_camera_trap_video'' in
      bnd (makedirs E tempdir) (\<lambda>_.
      bnd (uuid1 E) (\<lambda>u.
      let user_tempdir = path_join tempdir (getuser E @ ''_'' @ u) in
      bnd (makedirs E user_tempdir) (\<lambda>_.
      bnd (case frame_folder options of
             Some f \<Rightarrow> ret (f, False)
           | None \<Rightarrow> bnd (uuid1 E) (\<lambda>u'.
               ret (path_join user_tempdir
                      (basename (input_video_file options) @ ''_frames_'' @ u'), True)))
        (\<lambda>(frame_output_folder, frame_output_folder_created).
      bnd (makedirs E frame_output_folder) (\<lambda>_.
      ret (tempdir, frame_output_folder, frame_output_folder_created)))))))"

text \<open>Lines 132-134: frame extraction.\<close>

definition extract_frames ::
  "env \<Rightarrow> ProcessVideoOptions \<Rightarrow> string \<Rightarrow> (string list \<times> real) action" where
  "extract_frames E options frame_output_folder =
     call (VideoToFrames (input_video_file options) frame_output_folder (frame_sample options)
             (\<not> reuse_frames_if_available options))
       (video_to_frames E (input_video_file options) frame_output_folder (frame_sample options)
             (\<not> reuse_frames_if_available options))"

text \<open>
  Lines 136-138: the debug cap.  \<^verbatim>\<open>options.debug_max_frames > 0\<close> raises a
  \<^verbatim>\<open>TypeError\<close> on \<^verbatim>\<open>None\<close>.
\<close>

definition pv_debug_cap :: "ProcessVideoOptions \<Rightarrow> string list \<Rightarrow> string list action" where
  "pv_debug_cap options frame_filenames =
     (case debug_max_frames options of
        None \<Rightarrow> throw (TypeError ''> not supported between NoneType and int'')
      | Some k \<Rightarrow> ret (if k > 0 then take (nat k) frame_filenames else frame_filenames))"

text \<open>Lines 140-157: reuse the results or run the detector and persist its results.\<close>

definition pv_detection ::
  "env \<Rightarrow> ProcessVideoOptions \<Rightarrow> string \<Rightarrow> string \<Rightarrow> string list \<Rightarrow> real
    \<Rightarrow> frame_results action" where
  "pv_detection E options json frame_output_folder image_file_names Fs =
     bnd (isfile json) (\<lambda>present.
       if reuse_results_if_available options \<and> present then
         bnd (print (LoadingResults json)) (\<lambda>_.
         bnd (json_load json) (\<lambda>loaded. ret (Loaded loaded)))
       else
         bnd (run_detector E (model_file options) image_file_names
                (json_confidence_threshold options) (n_cores options) (\<not> verbose options)
                (class_mapping_filename options)) (\<lambda>res.
         bnd (write_results_to_file E res json frame_output_folder (model_file options)
                (FrameRate Fs)) (\<lambda>_.
         ret (Detected res))))"

text \<open>Lines 184-187: the frame rate of the rendered video.\<close>

definition rendering_rate :: "real \<Rightarrow> int option \<Rightarrow> real action" where
  "rendering_rate Fs sample =
     (case sample of
        None \<Rightarrow> ret Fs
      | Some n \<Rightarrow> if n = 0 then throw ZeroDivisionError else ret (Fs / real_of_int n))"

text \<open>Lines 194-204: deleting the rendered frames.\<close>

definition pv_cleanup_rendered ::
  "env \<Rightarrow> ProcessVideoOptions \<Rightarrow> bool \<Rightarrow> string \<Rightarrow> string list \<Rightarrow> unit action" where
  "pv_cleanup_rendered E options frame_rendering_folder_created rendering_output_dir
       detected_frame_files =
     try_except
       (if force_rendered_frame_folder_deletion options
           \<or> (frame_rendering_folder_created
               \<and> output_video_file options \<noteq> Some rendering_output_dir)
        then rmtree E rendering_output_dir
        else for_each (remove E) detected_frame_files)
       (\<lambda>e. print (WarnDeletingRendered rendering_output_dir e))"

text \<open>Lines 162-204: rendering, entered when \<^verbatim>\<open>options.render_output_video\<close> holds.\<close>

definition pv_render ::
  "env \<Rightarrow> ProcessVideoOptions \<Rightarrow> string \<Rightarrow> string \<Rightarrow> string \<Rightarrow> real \<Rightarrow> unit action" where
  "pv_render E options tempdir json frame_output_folder Fs =
     (let (rendering_output_dir, frame_rendering_folder_created) =
            (case frame_rendering_folder options of
               Some r \<Rightarrow> (r, False)
             | None \<Rightarrow> (path_join tempdir
                          (basename (input_video_file options) @ ''_detections''), True)) in
      bnd (makedirs E rendering_output_dir) (\<lambda>_.
      bnd (visualize E json rendering_output_dir frame_output_folder
             (rendering_confidence_threshold options) False) (\<lambda>detected_frame_files.
      bnd (rendering_rate Fs (frame_sample options)) (\<lambda>rendering_fs.
      bnd (print (RenderingVideo (output_video_file options) rendering_fs Fs)) (\<lambda>_.
      bnd (frames_to_video E detected_frame_files rendering_fs (output_video_file options)
             (fourcc options)) (\<lambda>_.
      if \<not> keep_rendered_frames options
      then pv_cleanup_rendered E options frame_rendering_folder_created rendering_output_dir
             detected_frame_files
      else ret ()))))))"

text \<open>
  Lines 211-223: deleting the extracted frames.  The condition reads the attribute
  \<^verbatim>\<open>options.ouput_json_file\<close>, which no options object has: when the force flag is unset and
  the folder was created here, evaluating it raises \<^verbatim>\<open>AttributeError\<close> inside the
  \<^verbatim>\<open>try\<close>.
\<close>

definition pv_cleanup_extracted ::
  "env \<Rightarrow> ProcessVideoOptions \<Rightarrow> bool \<Rightarrow> string \<Rightarrow> string list \<Rightarrow> unit action" where
  "pv_cleanup_extracted E options frame_output_folder_created frame_output_folder
       frame_filenames =
     try_except
       (bnd (if force_extracted_frame_folder_deletion options then ret True
             else if frame_output_folder_created
                  then throw (AttributeError ''ouput_json_file'')
                  else ret False) (\<lambda>recursively.
        if recursively
        then bnd (print (RecursivelyDeleting frame_output_folder)) (\<lambda>_.
             rmtree E frame_output_folder)
        else for_each (remove E) frame_filenames))
       (\<lambda>e. print (WarnRemovingExtracted frame_output_folder e))"

text \<open>\<^verbatim>\<open>process_video(options)\<close>.\<close>

definition process_video :: "env \<Rightarrow> ProcessVideoOptions \<Rightarrow> frame_results action" where
  "process_video E options0 =
     (let (options, json) = resolve_outputs options0 in
      bnd (pv_workspace E options) (\<lambda>(tempdir, frame_output_folder, frame_output_folder_created).
      bnd (extract_frames E options frame_output_folder) (\<lambda>(frame_filenames, Fs).
      bnd (pv_debug_cap options frame_filenames) (\<lambda>image_file_names.
      bnd (pv_detection E options json frame_output_folder image_file_names Fs) (\<lambda>res.
      bnd (if render_output_video options
           then pv_render E options tempdir json frame_output_folder Fs
           else ret ()) (\<lambda>_.
      bnd (if \<not> keep_extracted_frames options
           then pv_cleanup_extracted E options frame_output_folder_created frame_output_folder
                  frame_filenames
           else ret ()) (\<lambda>_.
      ret res)))))))"

section \<open>Processing a folder of videos\<close>

definition py_assert :: "bool \<Rightarrow> string \<Rightarrow> unit action" where
  "py_assert c msg = (if c then ret () else throw (AssertionError msg))"

text \<open>Lines 292-309: reuse the frame-level results or run the detector and persist them.\<close>

definition pvf_detection ::
  "env \<Rightarrow> ProcessVideoOptions \<Rightarrow> string \<Rightarrow> string \<Rightarrow> string list \<Rightarrow> real list
    \<Rightarrow> results option action" where
  "pvf_detection E options frames_json frame_output_folder image_file_names Fs =
     bnd (isfile frames_json) (\<lambda>present.
       if reuse_results_if_available options \<and> present then
         bnd (print (LoadingResults frames_json)) (\<lambda>_. ret None)
       else
         bnd (print RunningMegaDetector) (\<lambda>_.
         bnd (run_detector E (model_file options) image_file_names
                (json_confidence_threshold options) (n_cores options) (\<not> verbose options)
                (class_mapping_filename options)) (\<lambda>res.
         bnd (write_results_to_file E res frames_json frame_output_folder (model_file options)
                (FrameRates Fs)) (\<lambda>_.
         ret (Some res)))))"

text \<open>Line 315: \<^verbatim>\<open>frame_results_to_video_results(frames_json, video_json)\<close>.\<close>

definition aggregate_results :: "env \<Rightarrow> string \<Rightarrow> string \<Rightarrow> unit action" where
  "aggregate_results E frames_json video_json = (\<lambda>w.
     bnd (call (FrameToVideoResults frames_json video_json)
            (case files w frames_json of
               None \<Rightarrow> Inl (OSError ''FileNotFoundError'')
             | Some NotJson \<Rightarrow> Inl (ValueError ''JSONDecodeError'')
             | Some (Json a) \<Rightarrow> frame_results_to_video_results E a))
       (\<lambda>b w'. (Inr (), w'\<lparr>files := (files w')(video_json \<mapsto> Json b)\<rparr>)) w)"

text \<open>
  Lines 320-356: the rendering block of \<^verbatim>\<open>process_video_folder\<close>.  The local
  \<^verbatim>\<open>tempdir\<close> is only assigned when no frame folder was supplied (line 254).  The function
  body ends after the output folder has been chosen: the definition that follows in the file
  (line 360) starts at column 0.
\<close>

definition pvf_render ::
  "env \<Rightarrow> ProcessVideoOptions \<Rightarrow> string option \<Rightarrow> string \<Rightarrow> string \<Rightarrow> unit action" where
  "pvf_render E options tempdir frames_json frame_output_folder =
     bnd (case frame_rendering_folder options of
            Some r \<Rightarrow> ret (r, False)
          | None \<Rightarrow>
             (case tempdir of
                None \<Rightarrow> throw (UnboundLocalError ''tempdir'')
              | Some t \<Rightarrow> ret (path_join t
                           (basename (input_video_file options) @ ''_detections''), True)))
       (\<lambda>(frame_rendering_output_dir, frame_rendering_folder_created).
     bnd (makedirs E frame_rendering_output_dir) (\<lambda>_.
     bnd (visualize E frames_json frame_rendering_output_dir frame_output_folder
            (rendering_confidence_threshold options) True) (\<lambda>detected_frame_files.
     (case output_video_file options of
        Some out \<Rightarrow>
          bnd (isfile out) (\<lambda>is_file.
            if is_file
            then throw (ValueError
              ''Rendering videos for a folder, but an existing file was specified as output'')
            else if out = input_video_file options then ret ()
            else makedirs E out)
      | None \<Rightarrow> ret ()))))"

text \<open>\<^verbatim>\<open>process_video_folder(options)\<close>, lines 230-356.\<close>

definition process_video_folder :: "env \<Rightarrow> ProcessVideoOptions \<Rightarrow> unit action" where
  "process_video_folder E options =
     bnd (py_assert (isdir E (input_video_file options)) ''is not a folder'') (\<lambda>_.
     (case output_json_file options of
        None \<Rightarrow> throw (AssertionError
          ''When processing a folder, you must specify an output .json file'')
      | Some video_json \<Rightarrow>
     bnd (py_assert (endswith video_json ''.json'') []) (\<lambda>_.
     let frames_json = str_replace ''.json'' ''.frames.json'' video_json in
     bnd (makedirs E (dirname video_json)) (\<lambda>_.
     bnd (case frame_folder options of
            Some f \<Rightarrow> ret (f, None)
          | None \<Rightarrow>
             (let tempdir = path_join (gettempdir E) ''process_camera_trap_video'' in
              bnd (makedirs E tempdir) (\<lambda>_.
              bnd (uuid1 E) (\<lambda>u.
              bnd (makedirs E (path_join tempdir (getuser E @ ''_'' @ u))) (\<lambda>_.
              bnd (uuid1 E) (\<lambda>u'.
              ret (path_join tempdir
                     (basename (input_video_file options) @ ''_frames_'' @ u'),
                   Some tempdir)))))))
       (\<lambda>(frame_output_folder, tempdir).
     bnd (makedirs E frame_output_folder) (\<lambda>_.
     bnd (print ExtractingFrames) (\<lambda>_.
     bnd (call (VideoFolderToFrames (input_video_file options) frame_output_folder
                  (recursive options) (\<not> reuse_frames_if_available options)
                  (n_cores options) (frame_sample options) (verbose options))
            (video_folder_to_frames E (input_video_file options) frame_output_folder
                  (recursive options) (\<not> reuse_frames_if_available options)
                  (n_cores options) (frame_sample options) (verbose options)))
       (\<lambda>(frame_filenames, Fs, video_filenames).
     let all_file_names = concat frame_filenames in
     if length all_file_names = 0 then
       (if length video_filenames = 0
        then print (NoVideosFound (input_video_file options))
        else print (NoFramesExtracted (input_video_file options)))
     else
     let image_file_names =
           (case debug_max_frames options of
              None \<Rightarrow> all_file_names
            | Some k \<Rightarrow> if k > 0 then take (nat k) all_file_names else all_file_names) in
     bnd (pvf_detection E options frames_json frame_output_folder image_file_names Fs) (\<lambda>res.
     bnd (print ConvertingResults) (\<lambda>_.
     bnd (aggregate_results E frames_json video_json) (\<lambda>_.
     if render_output_video options
     then pvf_render E options tempdir frames_json frame_output_folder
     else ret ())))))))))))"

section \<open>The per-video stitching worker and the module-level code after it\<close>

text \<open>
  \<^verbatim>\<open>process_single_video\<close> (line 360) and the statements of lines 393-434 stand at module
  level.  They read names that are neither parameters nor assigned there; such a name is looked
  up among the module's globals when the statement runs and raises \<^verbatim>\<open>NameError\<close> when it
  is not bound.  The record gives the binding of each of these names, if any.
\<close>

record globals =
  g_options :: "ProcessVideoOptions option"
  g_video_filenames :: "string list option"
  g_input_video_file_abs :: "string option"
  g_frame_rendering_output_dir :: "string option"
  g_detected_frame_files :: "string list option"
  g_output_folder_is_input_folder :: "bool option"
  g_output_video_folder :: "string option"
  g_Fs :: "real list option"
  g_frame_rendering_folder_created :: "bool option"
  g_video_output_file :: "string option"
  g_frame_output_folder :: "string option"
  g_image_file_names :: "string list option"

definition global_name :: "string \<Rightarrow> 'a option \<Rightarrow> 'a action" where
  "global_name name binding =
     (case binding of None \<Rightarrow> throw (NameError name) | Some v \<Rightarrow> ret v)"

text \<open>
  The bindings when the module is loaded and when \<^verbatim>\<open>process_video\<close> or
  \<^verbatim>\<open>process_video_folder\<close> is called: the file assigns none of these names at module
  level (their only assignments are to locals of \<^verbatim>\<open>process_video_folder\<close>, and to
  \<^verbatim>\<open>options\<close> under \<^verbatim>\<open>if False:\<close>, line 486).
\<close>

definition module_globals :: globals where
  "module_globals =
     \<lparr> g_options = None, g_video_filenames = None, g_input_video_file_abs = None,
       g_frame_rendering_output_dir = None, g_detected_frame_files = None,
       g_output_folder_is_input_folder = None, g_output_video_folder = None, g_Fs = None,
       g_frame_rendering_folder_created = None, g_video_output_file = None,
       g_frame_output_folder = None, g_image_file_names = None \<rparr>"

text \<open>\<^verbatim>\<open>xs.index(x)\<close> and \<^verbatim>\<open>xs[i]\<close> for a non-negative index.\<close>

fun index_of :: "'a list \<Rightarrow> 'a \<Rightarrow> nat option" where
  "index_of [] x = None"
| "index_of (y # ys) x = (if y = x then Some 0 else map_option Suc (index_of ys x))"

definition list_index :: "'a list \<Rightarrow> 'a \<Rightarrow> nat action" where
  "list_index xs x =
     (case index_of xs x of None \<Rightarrow> throw (ValueError ''is not in list'') | Some i \<Rightarrow> ret i)"

definition list_get :: "'a list \<Rightarrow> nat \<Rightarrow> 'a action" where
  "list_get xs i =
     (if i < length xs then ret (xs ! i) else throw (IndexError ''list index out of range''))"

text \<open>Lines 372-374: the rendered frames attributed to a video, by prefix match.\<close>

definition video_frame_files_of :: "string \<Rightarrow> string list \<Rightarrow> string list" where
  "video_frame_files_of video_frame_output_folder detected_frame_files =
     filter (\<lambda>fn. startswith fn video_frame_output_folder) detected_frame_files"

text \<open>Lines 367-368: the rendered-frame folder of a video.\<close>

definition video_frame_output_folder_of ::
  "env \<Rightarrow> ProcessVideoOptions \<Rightarrow> string \<Rightarrow> string \<Rightarrow> string" where
  "video_frame_output_folder_of E options frame_rendering_output_dir video_file =
     path_join frame_rendering_output_dir (relpath E video_file (input_video_file options))"

text \<open>\<^verbatim>\<open>process_single_video\<close>, lines 360-391.\<close>

definition process_single_video ::
  "env \<Rightarrow> globals \<Rightarrow> string \<Rightarrow> ProcessVideoOptions \<Rightarrow> string \<Rightarrow> string list \<Rightarrow> bool \<Rightarrow> string
    \<Rightarrow> real list \<Rightarrow> int option \<Rightarrow> unit action" where
  "process_single_video E G video_file options frame_rendering_output_dir detected_frame_files
       output_folder_is_input_folder output_video_folder Fs sample =
     bnd (global_name ''video_filenames'' (g_video_filenames G)) (\<lambda>video_filenames.
     bnd (list_index video_filenames video_file) (\<lambda>i.
     bnd (list_get Fs i) (\<lambda>video_fs.
     bnd (rendering_rate video_fs sample) (\<lambda>rendering_fs.
     let input_video_file_relative = relpath E video_file (input_video_file options);
         video_frame_output_folder =
           video_frame_output_folder_of E options frame_rendering_output_dir video_file in
     bnd (py_assert (isdir E video_frame_output_folder)
            ''Could not find frame folder for video'') (\<lambda>_.
     let video_frame_files =
           video_frame_files_of video_frame_output_folder detected_frame_files in
     bnd (py_assert (length video_frame_files > 0)
            ''Could not find rendered frames for video'') (\<lambda>_.
     bnd (if output_folder_is_input_folder
          then bnd (global_name ''input_video_file_abs'' (g_input_video_file_abs G))
                 (\<lambda>input_video_file_abs.
                    ret (insert_before_extension E input_video_file_abs ''annotated'' ''_''))
          else ret (path_join output_video_folder input_video_file_relative))
       (\<lambda>video_output_file.
     bnd (makedirs E (dirname video_output_file)) (\<lambda>_.
     bnd (print (RenderingDetections input_video_file_relative video_output_file
                   rendering_fs video_fs)) (\<lambda>_.
     frames_to_video E video_frame_files rendering_fs (Some video_output_file)
       (fourcc options))))))))))"

text \<open>
  \<^verbatim>\<open>Pool(processes = n)\<close> refuses a size below one.  \<^verbatim>\<open>pool.map(f, xs)\<close> hands the items
  to the worker processes and re-raises an exception when a call raised one.  The pool runs the
  calls concurrently.  They are taken here in list order, each followed to its end whether or
  not an earlier one raised, and the calls they make enter the log of the run; the exception
  re-raised is the first in list order.  This is one of the schedules of the pool.
\<close>

definition pool_create :: "int option \<Rightarrow> unit action" where
  "pool_create processes =
     (case processes of
        None \<Rightarrow> ret ()
      | Some n \<Rightarrow> if n < 1 then throw (ValueError ''Number of processes must be at least 1'')
                  else ret ())"

fun pool_run :: "('a \<Rightarrow> 'b action) \<Rightarrow> 'a list \<Rightarrow> world \<Rightarrow> err list \<times> world" where
  "pool_run f [] w = ([], w)"
| "pool_run f (x # xs) w =
     (case f x w of (r, w') \<Rightarrow>
        (case pool_run f xs w' of (es, w'') \<Rightarrow>
           ((case r of Inl e \<Rightarrow> [e] | Inr _ \<Rightarrow> []) @ es, w'')))"

definition pool_map :: "('a \<Rightarrow> 'b action) \<Rightarrow> 'a list \<Rightarrow> unit action" where
  "pool_map f xs = (\<lambda>w.
     case pool_run f xs w of (es, w') \<Rightarrow>
       (case es of [] \<Rightarrow> (Inr (), w') | e # _ \<Rightarrow> (Inl e, w')))"

text \<open>Lines 405-415: deleting the rendered frames at module level.\<close>

definition tail_cleanup_rendered ::
  "env \<Rightarrow> globals \<Rightarrow> ProcessVideoOptions \<Rightarrow> string \<Rightarrow> string list \<Rightarrow> unit action" where
  "tail_cleanup_rendered E G options frame_rendering_output_dir detected_frame_files =
     try_except
       (bnd (if force_rendered_frame_folder_deletion options then ret True
             else bnd (global_name ''frame_rendering_folder_created''
                         (g_frame_rendering_folder_created G)) (\<lambda>created.
                  if created
                  then bnd (global_name ''video_output_file'' (g_video_output_file G))
                         (\<lambda>video_output_file.
                            ret (frame_rendering_output_dir \<noteq> video_output_file))
                  else ret False)) (\<lambda>recursively.
        if recursively then rmtree E frame_rendering_output_dir
        else for_each (remove E) detected_frame_files))
       (\<lambda>e. print (WarnDeletingRendered frame_rendering_output_dir e))"

text \<open>Lines 422-434: deleting the extracted frames at module level.\<close>

definition tail_cleanup_extracted ::
  "env \<Rightarrow> globals \<Rightarrow> ProcessVideoOptions \<Rightarrow> unit action" where
  "tail_cleanup_extracted E G options =
     try_except
       (bnd (print DeletingFrameCache) (\<lambda>_.
        if force_extracted_frame_folder_deletion options
        then bnd (global_name ''frame_output_folder'' (g_frame_output_folder G))
               (\<lambda>frame_output_folder.
             bnd (print (RecursivelyDeleting frame_output_folder)) (\<lambda>_.
             rmtree E frame_output_folder))
        else bnd (global_name ''image_file_names'' (g_image_file_names G))
               (\<lambda>image_file_names. for_each (remove E) image_file_names)))
       (\<lambda>e. bnd (global_name ''frame_output_folder'' (g_frame_output_folder G))
               (\<lambda>frame_output_folder. print (WarnDeletingFrames frame_output_folder e)))"

text \<open>
  Lines 393-434, the statements at module level after \<^verbatim>\<open>process_single_video\<close>: the
  worker pool over the videos, then the two cleanups.
\<close>

definition module_level_tail :: "env \<Rightarrow> globals \<Rightarrow> unit action" where
  "module_level_tail E G =
     bnd (global_name ''options'' (g_options G)) (\<lambda>options.
     bnd (pool_create (n_cores options)) (\<lambda>_.
     bnd (global_name ''frame_rendering_output_dir'' (g_frame_rendering_output_dir G))
       (\<lambda>frame_rendering_output_dir.
     bnd (global_name ''detected_frame_files'' (g_detected_frame_files G))
       (\<lambda>detected_frame_files.
     bnd (global_name ''output_folder_is_input_folder'' (g_output_folder_is_input_folder G))
       (\<lambda>output_folder_is_input_folder.
     bnd (global_name ''output_video_folder'' (g_output_video_folder G))
       (\<lambda>output_video_folder.
     bnd (global_name ''Fs'' (g_Fs G)) (\<lambda>Fs.
     bnd (global_name ''video_filenames'' (g_video_filenames G)) (\<lambda>video_filenames.
     bnd (pool_map
            (\<lambda>video_file. process_single_video E G video_file options
               frame_rendering_output_dir detected_frame_files output_folder_is_input_folder
               output_video_folder Fs (frame_sample options))
            video_filenames) (\<lambda>_.
     bnd (if \<not> keep_rendered_frames options
          then tail_cleanup_rendered E G options frame_rendering_output_dir
                 detected_frame_files
          else ret ()) (\<lambda>_.
     if \<not> keep_extracted_frames options
     then tail_cleanup_extracted E G options
     else ret ()))))))))))"

text \<open>The events a run adds to the log.\<close>

definition trace_of :: "'a action \<Rightarrow> world \<Rightarrow> event list" where
  "trace_of m w = drop (length (events w)) (events (snd (m w)))"

definition outcome :: "'a action \<Rightarrow> world \<Rightarrow> err + 'a" where
  "outcome m w = fst (m w)"

section \<open>Notions used to state the properties\<close>

text \<open>
  \<open>emits P m w\<close>: run from \<open>w\<close>, the action \<open>m\<close> only appends to the log, and every
  event it appends satisfies \<open>P\<close>.
\<close>

definition emits :: "(event \<Rightarrow> bool) \<Rightarrow> 'a action \<Rightarrow> world \<Rightarrow> bool" where
  "emits P m w = (\<exists>tr. events (snd (m w)) = events w @ tr \<and> list_all P tr)"

named_theorems emits_rules

text \<open>
  \<open>agree m m' w w'\<close>: run from worlds with the same files and the same number of drawn
  identifiers, two actions end with the same outcome, again in such worlds.  The logs may differ.
\<close>

definition same_state :: "world \<Rightarrow> world \<Rightarrow> bool" where
  "same_state w w' = (files w = files w' \<and> uuids_drawn w = uuids_drawn w')"

definition agree :: "'a action \<Rightarrow> 'a action \<Rightarrow> world \<Rightarrow> world \<Rightarrow> bool" where
  "agree m m' w w' =
     (fst (m w) = fst (m' w') \<and> same_state (snd (m w)) (snd (m' w')))"

named_theorems agree_rules

text \<open>Which events are detector runs, recursive deletions, calls of the assembler.\<close>

fun is_detector_run :: "event \<Rightarrow> bool" where
  "is_detector_run (RunDetector model images threshold cores quiet class_mapping) = True"
| "is_detector_run _ = False"

fun is_rmtree :: "event \<Rightarrow> bool" where
  "is_rmtree (Rmtree p) = True"
| "is_rmtree _ = False"

fun is_stitch :: "event \<Rightarrow> bool" where
  "is_stitch (FramesToVideo frame_files fs output codec) = True"
| "is_stitch _ = False"

text \<open>The files a log shows as removed: the \<^verbatim>\<open>os.remove\<close> calls that did not raise.\<close>

definition removed_files :: "env \<Rightarrow> event list \<Rightarrow> string list" where
  "removed_files E tr =
     concat (map (\<lambda>ev. case ev of Remove p \<Rightarrow> (if remove_err E p = None then [p] else [])
                           | _ \<Rightarrow> []) tr)"

text \<open>
  The directories a run of \<^verbatim>\<open>process_video\<close> started in world \<open>w\<close> works in, as lines
  111-130 and 168-173 compute them, and the frame list it hands to the detector (lines 136-138).
\<close>

definition pv_tempdir :: "env \<Rightarrow> string" where
  "pv_tempdir E = path_join (gettempdir E) ''process_camera_trap_video''"

definition pv_user_tempdir :: "env \<Rightarrow> world \<Rightarrow> string" where
  "pv_user_tempdir E w =
     path_join (pv_tempdir E) (getuser E @ ''_'' @ uuid_gen E (uuids_drawn w))"

definition pv_frame_output_folder :: "env \<Rightarrow> ProcessVideoOptions \<Rightarrow> world \<Rightarrow> string" where
  "pv_frame_output_folder E options w =
     (case frame_folder options of
        Some f \<Rightarrow> f
      | None \<Rightarrow> path_join (pv_user_tempdir E w)
                 (basename (input_video_file options) @ ''_frames_''
                    @ uuid_gen E (Suc (uuids_drawn w))))"

definition pv_rendering_output_dir :: "env \<Rightarrow> ProcessVideoOptions \<Rightarrow> string" where
  "pv_rendering_output_dir E options =
     (case frame_rendering_folder options of
        Some r \<Rightarrow> r
      | None \<Rightarrow> path_join (pv_tempdir E)
                 (basename (input_video_file options) @ ''_detections''))"

definition pv_workspace_dirs :: "env \<Rightarrow> ProcessVideoOptions \<Rightarrow> world \<Rightarrow> string list" where
  "pv_workspace_dirs E options w =
     [pv_tempdir E, pv_user_tempdir E w, pv_frame_output_folder E options w]"

definition capped :: "int \<Rightarrow> string list \<Rightarrow> string list" where
  "capped k frames = (if k > 0 then take (nat k) frames else frames)"

text \<open>The same for \<^verbatim>\<open>process_video_folder\<close> (lines 244-265).\<close>

definition pvf_frames_json :: "string \<Rightarrow> string" where
  "pvf_frames_json video_json = str_replace ''.json'' ''.frames.json'' video_json"

definition pvf_frame_output_folder :: "env \<Rightarrow> ProcessVideoOptions \<Rightarrow> world \<Rightarrow> string" where
  "pvf_frame_output_folder E options w =
     (case frame_folder options of
        Some f \<Rightarrow> f
      | None \<Rightarrow> path_join (pv_tempdir E)
                 (basename (input_video_file options) @ ''_frames_''
                    @ uuid_gen E (Suc (uuids_drawn w))))"

definition pvf_workspace_dirs ::
  "env \<Rightarrow> ProcessVideoOptions \<Rightarrow> world \<Rightarrow> string \<Rightarrow> string list" where
  "pvf_workspace_dirs E options w video_json =
     dirname video_json
     # (case frame_folder options of
          Some f \<Rightarrow> [f]
        | None \<Rightarrow> [pv_tempdir E, pv_user_tempdir E w, pvf_frame_output_folder E options w])"

section \<open>The detector as the specification describes it, and concrete runs\<close>

text \<open>
  Modelled from the spec: the detector \<^verbatim>\<open>load_and_run_detector_batch\<close> of
  \<^verbatim>\<open>detection/run_detector_batch.py\<close> is not among the sources.  The specification gives
  \<^verbatim>\<open>DetectionEngine.runBatch(modelRef, imagePaths, ...) \<rightarrow> perImageDetections\<close>, "batch image
  inference \<rightarrow> per-image detections": one record per image handed in (here with no detection).
\<close>

definition spec_run_batch :: "string list \<Rightarrow> results" where
  "spec_run_batch image_paths = map (\<lambda>p. (p, [])) image_paths"

text \<open>
  An environment in which nothing fails: a video has three frames at 30 frames per second, the
  detector is the one above, and the renderer returns a rendered copy of each of three frames
  in the folder it is given.
\<close>

definition demo_env :: env where
  "demo_env =
     \<lparr> gettempdir = ''/tmp'', getuser = ''u'',
       uuid_gen = (\<lambda>n. if n = 0 then ''a1'' else ''b2''),
       makedirs_err = (\<lambda>_. None), rmtree_err = (\<lambda>_. None), remove_err = (\<lambda>_. None),
       isdir = (\<lambda>_. True),
       relpath = (\<lambda>p start. drop (Suc (length start)) p),
       insert_before_extension = (\<lambda>f s sep. f @ sep @ s),
       video_to_frames = (\<lambda>video folder every_n overwrite.
          Inr ([path_join folder ''frame0.jpg'', path_join folder ''frame1.jpg'',
                path_join folder ''frame2.jpg''], 30)),
       video_folder_to_frames = (\<lambda>_ _ _ _ _ _ _. Inr ([], [], [])),
       load_and_run_detector_batch = (\<lambda>model images threshold cores quiet class_mapping.
          Inr (spec_run_batch images)),
       write_results_err = (\<lambda>_. None),
       frame_results_to_video_results = Inr,
       visualize_detector_output = (\<lambda>fs result_path out_dir images_dir threshold preserve.
          Inr [path_join out_dir ''frame0.jpg'', path_join out_dir ''frame1.jpg'',
               path_join out_dir ''frame2.jpg'']),
       frames_to_video_err = (\<lambda>_ _ _ _. None) \<rparr>"

definition start :: world where
  "start = \<lparr> events = [], files = Map.empty, uuids_drawn = 0 \<rparr>"


text \<open>
  A frame folder supplied by the caller that is also the default rendering folder of the run.
\<close>

definition aliased_options :: ProcessVideoOptions where
  "aliased_options =
     default_options\<lparr> input_video_file := ''/v/cam.mp4'',
       frame_folder := Some ''/tmp/process_camera_trap_video/cam.mp4_detections'',
       render_output_video := True \<rparr>"

text \<open>The frame rate handed to the assembler: lines 184-187 and 362-365.\<close>

definition stitch_rate :: "real \<Rightarrow> int option \<Rightarrow> real" where
  "stitch_rate fps sample = (case sample of None \<Rightarrow> fps | Some n \<Rightarrow> fps / real_of_int n)"

text \<open>\<^verbatim>\<open>process_video\<close> from line 140 on: detection, rendering, cleanup.\<close>

definition pv_from_detection ::
  "env \<Rightarrow> ProcessVideoOptions \<Rightarrow> string \<Rightarrow> string \<Rightarrow> string \<Rightarrow> bool \<Rightarrow> string list
    \<Rightarrow> string list \<Rightarrow> real \<Rightarrow> frame_results action" where
  "pv_from_detection E options json tempdir frame_output_folder frame_output_folder_created
       frame_filenames image_file_names Fs =
     bnd (pv_detection E options json frame_output_folder image_file_names Fs) (\<lambda>res.
     bnd (if render_output_video options
          then pv_render E options tempdir json frame_output_folder Fs
          else ret ()) (\<lambda>_.
     bnd (if \<not> keep_extracted_frames options
          then pv_cleanup_extracted E options frame_output_folder_created frame_output_folder
                 frame_filenames
          else ret ()) (\<lambda>_.
     ret res)))"

text \<open>
  \<^verbatim>\<open>process_video_folder\<close> from line 292 on, the frame list it hands to the detector (lines
  286-287), and its local \<^verbatim>\<open>tempdir\<close>, unbound when a frame folder was supplied.
\<close>

definition pvf_from_detection ::
  "env \<Rightarrow> ProcessVideoOptions \<Rightarrow> string \<Rightarrow> string \<Rightarrow> string option \<Rightarrow> string \<Rightarrow> string list
    \<Rightarrow> real list \<Rightarrow> unit action" where
  "pvf_from_detection E options video_json frames_json tempdir frame_output_folder
       image_file_names Fs =
     bnd (pvf_detection E options frames_json frame_output_folder image_file_names Fs) (\<lambda>res.
     bnd (print ConvertingResults) (\<lambda>_.
     bnd (aggregate_results E frames_json video_json) (\<lambda>_.
     if render_output_video options
     then pvf_render E options tempdir frames_json frame_output_folder
     else ret ())))"

definition pvf_image_file_names :: "ProcessVideoOptions \<Rightarrow> string list \<Rightarrow> string list" where
  "pvf_image_file_names options all_file_names =
     (case debug_max_frames options of
        None \<Rightarrow> all_file_names
      | Some k \<Rightarrow> capped k all_file_names)"

definition pvf_tempdir :: "env \<Rightarrow> ProcessVideoOptions \<Rightarrow> string option" where
  "pvf_tempdir E options =
     (case frame_folder options of Some f \<Rightarrow> None | None \<Rightarrow> Some (pv_tempdir E))"

text \<open>
  The \<^verbatim>\<open>os.remove\<close> calls of the loop \<^verbatim>\<open>for fn in fs: os.remove(fn)\<close>: the files up to
  and including the first whose removal raises; and the exception that ends the loop, if any.
\<close>

definition removal_attempts :: "env \<Rightarrow> string list \<Rightarrow> string list" where
  "removal_attempts E fs =
     takeWhile (\<lambda>f. remove_err E f = None) fs
     @ take 1 (dropWhile (\<lambda>f. remove_err E f = None) fs)"

definition removal_error :: "env \<Rightarrow> string list \<Rightarrow> err option" where
  "removal_error E fs =
     (case dropWhile (\<lambda>f. remove_err E f = None) fs of [] \<Rightarrow> None | f # _ \<Rightarrow> remove_err E f)"

text \<open>
  What the cleanup of lines 211-223 does when it takes the per-file branch on the frame files
  \<open>frames\<close>: the removal calls, then the warning of line 223 if one of them raised.
\<close>

definition extracted_cleanup_log :: "env \<Rightarrow> string \<Rightarrow> string list \<Rightarrow> event list" where
  "extracted_cleanup_log E folder frames =
     map Remove (removal_attempts E frames)
     @ (case removal_error E frames of None \<Rightarrow> []
        | Some e \<Rightarrow> [Print (WarnRemovingExtracted folder e)])"

text \<open>The exception a logged deletion call raised, if it raised one.\<close>

definition raised :: "env \<Rightarrow> event \<Rightarrow> err option" where
  "raised E ev = (case ev of Rmtree p \<Rightarrow> rmtree_err E p | Remove p \<Rightarrow> remove_err E p | _ \<Rightarrow> None)"

text \<open>
  \<open>logs Q m w\<close>: run from \<open>w\<close>, the action \<open>m\<close> only appends to the log, and what it
  appends satisfies \<open>Q\<close>.
\<close>

definition logs :: "(event list \<Rightarrow> bool) \<Rightarrow> 'a action \<Rightarrow> world \<Rightarrow> bool" where
  "logs Q m w = (\<exists>tr. events (snd (m w)) = events w @ tr \<and> Q tr)"

text \<open>
  \<open>warned E rd fd tr\<close>: every deletion call in the log \<open>tr\<close> that raised is reported in
  \<open>tr\<close>, by the warning of the rendered-frames cleanup (lines 202-203, for the folder
  \<open>rd\<close>) or by that of the extracted-frames cleanup (lines 221-222, for the folder \<open>fd\<close>).
\<close>

definition warned :: "env \<Rightarrow> string \<Rightarrow> string \<Rightarrow> event list \<Rightarrow> bool" where
  "warned E rd fd tr =
     (\<forall>ev \<in> set tr. case raised E ev of
        None \<Rightarrow> True
      | Some e \<Rightarrow> Print (WarnDeletingRendered rd e) \<in> set tr
                  \<or> Print (WarnRemovingExtracted fd e) \<in> set tr)"

text \<open>A caller-supplied frame folder, no force flag; and an environment in which the first
  frame file cannot be removed.\<close>

definition supplied_options :: ProcessVideoOptions where
  "supplied_options =
     default_options\<lparr> input_video_file := ''/v/cam.mp4'',
       frame_folder := Some ''/data/frames'' \<rparr>"

definition failing_remove_env :: env where
  "failing_remove_env =
     demo_env\<lparr> remove_err := (\<lambda>p. if p = ''/data/frames/frame0.jpg''
                                  then Some (OSError ''PermissionError'') else None) \<rparr>"

text \<open>
  An environment in which every deletion call fails; and a run on the defaults, which creates
  its frame folder.
\<close>

definition failing_delete_env :: env where
  "failing_delete_env =
     demo_env\<lparr> rmtree_err := (\<lambda>p. Some (OSError ''PermissionError'')),
               remove_err := (\<lambda>p. Some (OSError ''PermissionError'')) \<rparr>"

definition created_options :: ProcessVideoOptions where
  "created_options = default_options\<lparr> input_video_file := ''/v/cam.mp4'' \<rparr>"

text \<open>Reuse requested, with a result artifact already on disk.\<close>

definition reuse_options :: ProcessVideoOptions where
  "reuse_options = supplied_options\<lparr> reuse_results_if_available := True \<rparr>"

definition cached_world :: world where
  "cached_world =
     start\<lparr> files := [''/v/cam.mp4.json'' \<mapsto>
        Json \<lparr> art_images = [], art_detector = ''MDV5A'', art_base = ''/data/frames'',
               art_frame_rate = FrameRate 30 \<rparr>] \<rparr>"

text \<open>Rendering enabled, every fifth frame.\<close>

definition sampled_options :: ProcessVideoOptions where
  "sampled_options =
     supplied_options\<lparr> render_output_video := True, frame_sample := Some 5 \<rparr>"

text \<open>
  A folder with two videos, \<^verbatim>\<open>a.mp4\<close> at 30 and \<^verbatim>\<open>b.mp4\<close> at 25 frames per second; a
  folder whose only video yields no frame; and the module-level names bound as
  \<^verbatim>\<open>process_video_folder\<close> would leave its locals, for the first folder.
\<close>

definition folder_options :: ProcessVideoOptions where
  "folder_options =
     default_options\<lparr> input_video_file := ''/in'',
       output_json_file := Some ''/out/results.json'',
       frame_folder := Some ''/data/frames'',
       frame_rendering_folder := Some ''/render'',
       output_video_file := Some ''/out'',
       render_output_video := True,
       frame_sample := Some 5 \<rparr>"

definition folder_env :: env where
  "folder_env =
     demo_env\<lparr> video_folder_to_frames := (\<lambda>input folder rec overwrite cores every_n verb.
        Inr ([[''/data/frames/a.mp4/frame0.jpg'', ''/data/frames/a.mp4/frame1.jpg''],
              [''/data/frames/b.mp4/frame0.jpg'']],
             [30, 25], [''/in/a.mp4'', ''/in/b.mp4''])) \<rparr>"

definition codec_env :: env where
  "codec_env =
     demo_env\<lparr> video_folder_to_frames := (\<lambda>input folder rec overwrite cores every_n verb.
        Inr ([[]], [0], [''/in/a.mkv''])) \<rparr>"

definition folder_globals :: globals where
  "folder_globals =
     \<lparr> g_options = Some folder_options,
       g_video_filenames = Some [''/in/a.mp4'', ''/in/b.mp4''],
       g_input_video_file_abs = None,
       g_frame_rendering_output_dir = Some ''/render'',
       g_detected_frame_files =
         Some [''/render/a.mp4/frame0.jpg'', ''/render/a.mp4/frame1.jpg'',
               ''/render/b.mp4/frame0.jpg''],
       g_output_folder_is_input_folder = Some False,
       g_output_video_folder = Some ''/out'',
       g_Fs = Some [30, 25],
       g_frame_rendering_folder_created = Some False,
       g_video_output_file = None,
       g_frame_output_folder = Some ''/data/frames'',
       g_image_file_names =
         Some [''/data/frames/a.mp4/frame0.jpg'', ''/data/frames/a.mp4/frame1.jpg'',
               ''/data/frames/b.mp4/frame0.jpg''] \<rparr>"

text \<open>The folder with the two videos, where the assembler fails on the second video.\<close>

definition failing_stitch_env :: env where
  "failing_stitch_env =
     folder_env\<lparr> frames_to_video_err := (\<lambda>fs rate out codec.
        if out = Some ''/out/b.mp4'' then Some (ExternalError ''encoder failed'') else None) \<rparr>"

text \<open>A folder with the two videos \<^verbatim>\<open>a.mp4\<close> and \<^verbatim>\<open>a.mp4_copy.mp4\<close>.\<close>

definition sibling_globals :: globals where
  "sibling_globals =
     folder_globals\<lparr>
       g_video_filenames := Some [''/in/a.mp4'', ''/in/a.mp4_copy.mp4''],
       g_detected_frame_files :=
         Some [''/render/a.mp4/frame0.jpg'', ''/render/a.mp4_copy.mp4/frame0.jpg''] \<rparr>"

section \<open>Properties of the command-line reproduction\<close>


section \<open>Reasoning about the log\<close>

lemma ret_apply [simp]: "ret a w = (Inr a, w)"
  by (simp add: ret_def)

lemma throw_apply [simp]: "throw e w = (Inl e, w)"
  by (simp add: throw_def)

lemma bnd_apply: "bnd m f w = (case m w of (Inl e, w') \<Rightarrow> (Inl e, w') | (Inr a, w') \<Rightarrow> f a w')"
  by (simp add: bnd_def)

lemma emits_trace: "emits P m w \<Longrightarrow> list_all P (trace_of m w)"
  by (auto simp: emits_def trace_of_def)

lemma emits_events: "emits P m w \<Longrightarrow> events (snd (m w)) = events w @ trace_of m w"
  by (auto simp: emits_def trace_of_def)

lemma emits_mono: "emits P m w \<Longrightarrow> (\<And>ev. P ev \<Longrightarrow> Q ev) \<Longrightarrow> emits Q m w"
  by (auto simp: emits_def list_all_iff)

lemma emits_ret [emits_rules]: "emits P (ret a) w"
  by (simp add: emits_def)

lemma emits_throw [emits_rules]: "emits P (throw e) w"
  by (simp add: emits_def)

lemma emits_emit [emits_rules]: "P ev \<Longrightarrow> emits P (emit ev) w"
  by (simp add: emits_def emit_def)

lemma emits_bnd [emits_rules]:
  assumes "emits P m w" and "\<And>a w'. m w = (Inr a, w') \<Longrightarrow> emits P (f a) w'"
  shows "emits P (bnd m f) w"
proof (cases "m w")
  case (Pair r w')
  from assms(1) Pair obtain tr where tr: "events w' = events w @ tr" "list_all P tr"
    by (auto simp: emits_def)
  show ?thesis
  proof (cases r)
    case (Inl e)
    with Pair tr show ?thesis by (auto simp: emits_def bnd_def)
  next
    case (Inr a)
    with Pair assms(2) obtain tr' where
      "events (snd (f a w')) = events w' @ tr'" "list_all P tr'"
      by (auto simp: emits_def)
    with Pair Inr tr show ?thesis by (auto simp: emits_def bnd_def)
  qed
qed

lemma emits_try [emits_rules]:
  assumes "emits P m w" and "\<And>e w'. m w = (Inl e, w') \<Longrightarrow> emits P (h e) w'"
  shows "emits P (try_except m h) w"
proof (cases "m w")
  case (Pair r w')
  from assms(1) Pair obtain tr where tr: "events w' = events w @ tr" "list_all P tr"
    by (auto simp: emits_def)
  show ?thesis
  proof (cases r)
    case (Inr a)
    with Pair tr show ?thesis by (auto simp: emits_def try_except_def)
  next
    case (Inl e)
    with Pair assms(2) obtain tr' where
      "events (snd (h e w')) = events w' @ tr'" "list_all P tr'"
      by (auto simp: emits_def)
    with Pair Inl tr show ?thesis by (auto simp: emits_def try_except_def)
  qed
qed

lemma emits_for_each [emits_rules]:
  "(\<And>x w'. x \<in> set xs \<Longrightarrow> emits P (f x) w') \<Longrightarrow> emits P (for_each f xs) w"
  by (induction xs arbitrary: w) (auto intro!: emits_rules)

lemma emits_guarded [emits_rules]: "P ev \<Longrightarrow> emits P (guarded ev r) w"
  by (auto simp: guarded_def intro!: emits_rules split: option.splits)

lemma emits_call [emits_rules]: "P ev \<Longrightarrow> emits P (call ev r) w"
  by (auto simp: call_def intro!: emits_rules split: sum.splits)

lemma emits_print [emits_rules]: "P (Print m) \<Longrightarrow> emits P (print m) w"
  by (auto simp: print_def intro!: emits_rules)

lemma emits_makedirs [emits_rules]: "P (Makedirs p) \<Longrightarrow> emits P (makedirs E p) w"
  by (auto simp: makedirs_def intro!: emits_rules)

lemma emits_rmtree [emits_rules]: "P (Rmtree p) \<Longrightarrow> emits P (rmtree E p) w"
  by (auto simp: rmtree_def intro!: emits_rules)

lemma emits_remove [emits_rules]: "P (Remove p) \<Longrightarrow> emits P (remove E p) w"
  by (auto simp: remove_def intro!: emits_rules)

lemma emits_uuid1 [emits_rules]: "emits P (uuid1 E) w"
  by (simp add: emits_def uuid1_def)

lemma emits_isfile [emits_rules]: "emits P (isfile p) w"
  by (simp add: emits_def isfile_def)

lemma emits_json_load [emits_rules]: "P (JsonLoad p) \<Longrightarrow> emits P (json_load p) w"
  using emits_call [of P "JsonLoad p" _ w] by (simp add: emits_def json_load_def)

lemma emits_run_detector [emits_rules]:
  "P (RunDetector m i t c q cm) \<Longrightarrow> emits P (run_detector E m i t c q cm) w"
  by (auto simp: run_detector_def intro!: emits_rules)

lemma emits_write_results [emits_rules]:
  "P (WriteResults res p b d meta) \<Longrightarrow> emits P (write_results_to_file E res p b d meta) w"
  unfolding write_results_to_file_def
  by (rule emits_bnd, rule emits_guarded, assumption) (simp add: emits_def)

lemma emits_visualize [emits_rules]:
  "P (Visualize j out imgs t pr) \<Longrightarrow> emits P (visualize E j out imgs t pr) w"
  using emits_call [of P "Visualize j out imgs t pr" _ w] by (simp add: emits_def visualize_def)

lemma emits_frames_to_video [emits_rules]:
  "P (FramesToVideo fs r out c) \<Longrightarrow> emits P (frames_to_video E fs r out c) w"
  by (auto simp: frames_to_video_def intro!: emits_rules)

lemma emits_rendering_rate [emits_rules]: "emits P (rendering_rate Fs n) w"
  by (auto simp: rendering_rate_def intro!: emits_rules split: option.splits)

lemma emits_py_assert [emits_rules]: "emits P (py_assert c msg) w"
  by (auto simp: py_assert_def intro!: emits_rules)

lemma emits_global_name [emits_rules]: "emits P (global_name n b) w"
  by (auto simp: global_name_def intro!: emits_rules split: option.splits)

subsection \<open>The stages of \<^verbatim>\<open>process_video\<close>\<close>

lemma resolve_outputs_fields [simp]:
  "frame_folder (fst (resolve_outputs options)) = frame_folder options"
  "frame_rendering_folder (fst (resolve_outputs options)) = frame_rendering_folder options"
  "input_video_file (fst (resolve_outputs options)) = input_video_file options"
  "render_output_video (fst (resolve_outputs options)) = render_output_video options"
  "keep_rendered_frames (fst (resolve_outputs options)) = keep_rendered_frames options"
  "keep_extracted_frames (fst (resolve_outputs options)) = keep_extracted_frames options"
  "force_extracted_frame_folder_deletion (fst (resolve_outputs options))
     = force_extracted_frame_folder_deletion options"
  "force_rendered_frame_folder_deletion (fst (resolve_outputs options))
     = force_rendered_frame_folder_deletion options"
  "frame_sample (fst (resolve_outputs options)) = frame_sample options"
  "debug_max_frames (fst (resolve_outputs options)) = debug_max_frames options"
  "reuse_results_if_available (fst (resolve_outputs options))
     = reuse_results_if_available options"
  "reuse_frames_if_available (fst (resolve_outputs options)) = reuse_frames_if_available options"
  "model_file (fst (resolve_outputs options)) = model_file options"
  "json_confidence_threshold (fst (resolve_outputs options)) = json_confidence_threshold options"
  "n_cores (fst (resolve_outputs options)) = n_cores options"
  "verbose (fst (resolve_outputs options)) = verbose options"
  "class_mapping_filename (fst (resolve_outputs options)) = class_mapping_filename options"
  "fourcc (fst (resolve_outputs options)) = fourcc options"
  "output_json_file (fst (resolve_outputs options)) = Some (snd (resolve_outputs options))"
  by (simp_all add: resolve_outputs_def Let_def)

lemma workspace_of_resolved [simp]:
  "pv_frame_output_folder E (fst (resolve_outputs options)) w
     = pv_frame_output_folder E options w"
  "pv_rendering_output_dir E (fst (resolve_outputs options)) = pv_rendering_output_dir E options"
  by (simp_all add: pv_frame_output_folder_def pv_rendering_output_dir_def
      split: option.splits)

lemma pv_workspace_result:
  assumes "pv_workspace E options w = (Inr (t, f, c), w')"
  shows "t = pv_tempdir E \<and> f = pv_frame_output_folder E options w
         \<and> c = (frame_folder options = None) \<and> files w' = files w"
  using assms
  by (auto simp: pv_workspace_def Let_def bnd_apply makedirs_def guarded_def emit_def uuid1_def
        pv_tempdir_def pv_user_tempdir_def pv_frame_output_folder_def
      split: option.splits prod.splits sum.splits if_splits)

lemma emits_pv_workspace:
  "(\<And>p. P (Makedirs p)) \<Longrightarrow> emits P (pv_workspace E options) w"
  by (auto simp: pv_workspace_def Let_def intro!: emits_rules split: option.splits prod.splits)

lemma emits_extract_frames:
  "(\<And>a b c d. P (VideoToFrames a b c d)) \<Longrightarrow> emits P (extract_frames E options f) w"
  by (auto simp: extract_frames_def intro!: emits_rules)

lemma emits_pv_debug_cap: "emits P (pv_debug_cap options fs) w"
  by (auto simp: pv_debug_cap_def intro!: emits_rules split: option.splits)

lemma emits_pv_detection:
  "(\<And>m. P (Print m)) \<Longrightarrow> (\<And>p. P (JsonLoad p))
   \<Longrightarrow> (\<And>a b c d e f. P (RunDetector a b c d e f))
   \<Longrightarrow> (\<And>a b c d e. P (WriteResults a b c d e))
   \<Longrightarrow> emits P (pv_detection E options json folder images Fs) w"
  by (auto simp: pv_detection_def intro!: emits_rules)

lemma emits_pv_cleanup_rendered:
  "(\<And>m. P (Print m)) \<Longrightarrow> (\<And>f. P (Remove f)) \<Longrightarrow>
   (force_rendered_frame_folder_deletion options
      \<or> (created \<and> output_video_file options \<noteq> Some d) \<Longrightarrow> P (Rmtree d)) \<Longrightarrow>
   emits P (pv_cleanup_rendered E options created d fs) w"
  by (auto simp: pv_cleanup_rendered_def intro!: emits_rules split: if_splits)

lemma emits_pv_cleanup_extracted:
  "(\<And>m. P (Print m)) \<Longrightarrow> (\<And>f. f \<in> set fs \<Longrightarrow> P (Remove f)) \<Longrightarrow>
   (force_extracted_frame_folder_deletion options \<Longrightarrow> P (Rmtree d)) \<Longrightarrow>
   emits P (pv_cleanup_extracted E options created d fs) w"
  by (auto simp: pv_cleanup_extracted_def intro!: emits_rules split: if_splits)

lemma rendering_rate_result:
  "rendering_rate Fs n w = (Inr r, w') \<Longrightarrow> r = stitch_rate Fs n"
  by (auto simp: rendering_rate_def stitch_rate_def split: option.splits if_splits)

lemma emits_pv_render:
  assumes "\<And>m. P (Print m)" "\<And>f. P (Remove f)" "\<And>p. P (Makedirs p)"
    "\<And>a b c d e. P (Visualize a b c d e)"
    "\<And>fs c. P (FramesToVideo fs (stitch_rate Fs (frame_sample options))
        (output_video_file options) c)"
    "\<not> keep_rendered_frames options \<Longrightarrow>
       force_rendered_frame_folder_deletion options
       \<or> (frame_rendering_folder options = None
           \<and> output_video_file options
              \<noteq> Some (path_join t (basename (input_video_file options) @ ''_detections'')))
     \<Longrightarrow> P (Rmtree (case frame_rendering_folder options of Some r \<Rightarrow> r
          | None \<Rightarrow> path_join t (basename (input_video_file options) @ ''_detections'')))"
  shows "emits P (pv_render E options t json folder Fs) w"
  using assms
  by (auto simp: pv_render_def Let_def
      dest!: rendering_rate_result
      intro!: emits_rules emits_pv_cleanup_rendered
      split: option.splits prod.splits)

section \<open>Evaluating concrete runs\<close>

lemmas run_defs = process_video_def resolve_outputs_def pv_workspace_def extract_frames_def
  pv_debug_cap_def pv_detection_def rendering_rate_def pv_cleanup_rendered_def pv_render_def
  pv_cleanup_extracted_def trace_of_def outcome_def
  bnd_def try_except_def emit_def guarded_def call_def print_def makedirs_def rmtree_def
  remove_def uuid1_def isfile_def json_load_def run_detector_def write_results_to_file_def
  visualize_def frames_to_video_def
  path_join_def basename_def startswith_def endswith_def suffix_to_prefix
  spec_run_batch_def demo_env_def start_def default_options_def Let_def

section \<open>Recursive deletion of the workspaces (C1)\<close>


text \<open>
  A frame folder supplied by the caller may coincide with the rendering folder of the run: it is
  then recursively deleted as the rendering folder, with no force flag set.
\<close>

lemma aliased_folder_deleted_as_rendering_workspace:
  "frame_folder aliased_options = Some ''/tmp/process_camera_trap_video/cam.mp4_detections''
   \<and> \<not> force_extracted_frame_folder_deletion aliased_options
   \<and> \<not> force_rendered_frame_folder_deletion aliased_options
   \<and> pv_rendering_output_dir demo_env aliased_options
       = ''/tmp/process_camera_trap_video/cam.mp4_detections''
   \<and> Rmtree ''/tmp/process_camera_trap_video/cam.mp4_detections''
       \<in> set (trace_of (process_video demo_env aliased_options) start)"
  by (simp add: run_defs aliased_options_def pv_rendering_output_dir_def pv_tempdir_def)




section \<open>Outcomes that do not depend on the log\<close>

lemma same_state_refl [simp]: "same_state w w"
  by (simp add: same_state_def)

lemma same_state_events [simp]:
  "same_state (w\<lparr>events := es\<rparr>) w' = same_state w w'"
  "same_state w (w'\<lparr>events := es\<rparr>) = same_state w w'"
  by (simp_all add: same_state_def)

lemma agree_ret [agree_rules]: "same_state w w' \<Longrightarrow> agree (ret a) (ret a) w w'"
  by (simp add: agree_def)

lemma agree_throw [agree_rules]: "same_state w w' \<Longrightarrow> agree (throw e) (throw e) w w'"
  by (simp add: agree_def)

lemma agree_bnd [agree_rules]:
  assumes "agree m m' w w'"
    and "\<And>a v v'. m w = (Inr a, v) \<Longrightarrow> m' w' = (Inr a, v') \<Longrightarrow> same_state v v'
          \<Longrightarrow> agree (f a) (f' a) v v'"
  shows "agree (bnd m f) (bnd m' f') w w'"
proof -
  obtain r v where mw: "m w = (r, v)" by (cases "m w")
  obtain r' v' where mw': "m' w' = (r', v')" by (cases "m' w'")
  from assms(1) mw mw' have eq: "r' = r" "same_state v v'"
    by (auto simp: agree_def)
  show ?thesis
  proof (cases r)
    case (Inl e)
    with mw mw' eq show ?thesis by (simp add: agree_def bnd_def)
  next
    case (Inr a)
    with assms(2) mw mw' eq have "agree (f a) (f' a) v v'" by simp
    with mw mw' eq Inr show ?thesis by (simp add: agree_def bnd_def)
  qed
qed

lemma agree_emit [agree_rules]: "same_state w w' \<Longrightarrow> agree (emit ev) (emit ev') w w'"
  by (simp add: agree_def emit_def)

lemma agree_guarded [agree_rules]:
  "same_state w w' \<Longrightarrow> agree (guarded ev r) (guarded ev' r) w w'"
  by (auto simp: guarded_def intro!: agree_rules split: option.splits)

lemma agree_call [agree_rules]: "same_state w w' \<Longrightarrow> agree (call ev r) (call ev' r) w w'"
  by (auto simp: call_def intro!: agree_rules split: sum.splits)

lemma agree_print [agree_rules]: "same_state w w' \<Longrightarrow> agree (print m) (print m') w w'"
  by (auto simp: print_def intro!: agree_rules)

lemma agree_makedirs [agree_rules]:
  "same_state w w' \<Longrightarrow> makedirs_err E p = makedirs_err E' p
   \<Longrightarrow> agree (makedirs E p) (makedirs E' p) w w'"
  by (auto simp: makedirs_def intro!: agree_rules)

lemma agree_uuid1 [agree_rules]:
  "same_state w w' \<Longrightarrow> uuid_gen E = uuid_gen E' \<Longrightarrow> agree (uuid1 E) (uuid1 E') w w'"
  by (simp add: agree_def uuid1_def same_state_def)

lemma agree_isfile [agree_rules]: "same_state w w' \<Longrightarrow> agree (isfile p) (isfile p) w w'"
  by (simp add: agree_def isfile_def same_state_def)

lemma agree_json_load [agree_rules]:
  "same_state w w' \<Longrightarrow> agree (json_load p) (json_load p) w w'"
  using agree_call [of w w' "JsonLoad p" _ "JsonLoad p"]
  by (simp add: agree_def json_load_def same_state_def)

lemma agree_run_detector [agree_rules]:
  "same_state w w' \<Longrightarrow> load_and_run_detector_batch E = load_and_run_detector_batch E'
   \<Longrightarrow> agree (run_detector E m i t c q cm) (run_detector E' m i t c q cm) w w'"
  by (auto simp: run_detector_def intro!: agree_rules)

lemma agree_write_results [agree_rules]:
  assumes "same_state w w'" and eq: "write_results_err E = write_results_err E'"
  shows "agree (write_results_to_file E res p b d meta)
           (write_results_to_file E' res p b d meta) w w'"
  unfolding write_results_to_file_def eq
  by (rule agree_bnd, rule agree_guarded, rule assms(1)) (simp add: agree_def same_state_def)

lemma agree_visualize [agree_rules]:
  "same_state w w' \<Longrightarrow> visualize_detector_output E = visualize_detector_output E'
   \<Longrightarrow> agree (visualize E j out imgs t pr) (visualize E' j out imgs t pr) w w'"
  using agree_call [of w w' "Visualize j out imgs t pr" _ "Visualize j out imgs t pr"]
  by (simp add: agree_def visualize_def same_state_def)

lemma agree_frames_to_video [agree_rules]:
  "same_state w w' \<Longrightarrow> frames_to_video_err E = frames_to_video_err E'
   \<Longrightarrow> agree (frames_to_video E fs r out c) (frames_to_video E' fs r out c) w w'"
  by (auto simp: frames_to_video_def intro!: agree_rules)

lemma agree_rendering_rate [agree_rules]:
  "same_state w w' \<Longrightarrow> agree (rendering_rate Fs n) (rendering_rate Fs n) w w'"
  by (auto simp: rendering_rate_def intro!: agree_rules split: option.splits)

section \<open>The removal loop and the two cleanups\<close>

lemma remove_apply:
  "remove E f w =
     ((case remove_err E f of None \<Rightarrow> Inr () | Some e \<Rightarrow> Inl e),
      w\<lparr>events := events w @ [Remove f]\<rparr>)"
  by (simp add: remove_def guarded_def bnd_def emit_def split: option.splits)

lemma rmtree_apply:
  "rmtree E d w =
     ((case rmtree_err E d of None \<Rightarrow> Inr () | Some e \<Rightarrow> Inl e),
      w\<lparr>events := events w @ [Rmtree d]\<rparr>)"
  by (simp add: rmtree_def guarded_def bnd_def emit_def split: option.splits)

lemma for_each_remove_run:
  "for_each (remove E) fs w =
     ((case removal_error E fs of None \<Rightarrow> Inr () | Some e \<Rightarrow> Inl e),
      w\<lparr>events := events w @ map Remove (removal_attempts E fs)\<rparr>)"
proof (induction fs arbitrary: w)
  case Nil
  show ?case by (simp add: removal_attempts_def removal_error_def)
next
  case (Cons f fs)
  show ?case
  proof (cases "remove_err E f")
    case None
    then show ?thesis
      by (simp add: Cons bnd_def remove_apply [of E f] removal_attempts_def removal_error_def)
  next
    case (Some e)
    then show ?thesis
      by (simp add: bnd_def remove_apply [of E f] removal_attempts_def removal_error_def)
  qed
qed

lemma removed_files_Nil [simp]: "removed_files E [] = []"
  by (simp add: removed_files_def)

lemma removed_files_append [simp]:
  "removed_files E (xs @ ys) = removed_files E xs @ removed_files E ys"
  by (simp add: removed_files_def)

lemma removed_files_Remove [simp]:
  "removed_files E (map Remove fs) = filter (\<lambda>f. remove_err E f = None) fs"
  by (induction fs) (simp_all add: removed_files_def)

lemma removed_files_Print [simp]: "removed_files E [Print m] = []"
  by (simp add: removed_files_def)

lemma filter_removal_attempts:
  "filter (\<lambda>f. remove_err E f = None) (removal_attempts E fs)
     = takeWhile (\<lambda>f. remove_err E f = None) fs"
  by (induction fs) (auto simp: removal_attempts_def)

lemma removal_all_ok:
  "\<forall>f\<in>set fs. remove_err E f = None \<Longrightarrow>
   removal_attempts E fs = fs \<and> removal_error E fs = None"
  by (induction fs) (auto simp: removal_attempts_def removal_error_def)

lemma removal_attempt_failed:
  "p \<in> set (removal_attempts E fs) \<Longrightarrow> remove_err E p = Some e \<Longrightarrow> removal_error E fs = Some e"
  by (induction fs) (auto simp: removal_attempts_def removal_error_def split: if_splits)

lemma pv_cleanup_extracted_run:
  "pv_cleanup_extracted E options created d fs w =
     (Inr (),
      w\<lparr>events := events w @
        (if force_extracted_frame_folder_deletion options
         then [Print (RecursivelyDeleting d), Rmtree d]
              @ (case rmtree_err E d of None \<Rightarrow> []
                 | Some e \<Rightarrow> [Print (WarnRemovingExtracted d e)])
         else if created
         then [Print (WarnRemovingExtracted d (AttributeError ''ouput_json_file''))]
         else map Remove (removal_attempts E fs)
              @ (case removal_error E fs of None \<Rightarrow> []
                 | Some e \<Rightarrow> [Print (WarnRemovingExtracted d e)]))\<rparr>)"
  by (simp add: pv_cleanup_extracted_def try_except_def bnd_def for_each_remove_run print_def
      emit_def rmtree_apply split: option.splits)

lemma pv_cleanup_rendered_run:
  "pv_cleanup_rendered E options created d fs w =
     (Inr (),
      w\<lparr>events := events w @
        (if force_rendered_frame_folder_deletion options
            \<or> (created \<and> output_video_file options \<noteq> Some d)
         then [Rmtree d]
              @ (case rmtree_err E d of None \<Rightarrow> []
                 | Some e \<Rightarrow> [Print (WarnDeletingRendered d e)])
         else map Remove (removal_attempts E fs)
              @ (case removal_error E fs of None \<Rightarrow> []
                 | Some e \<Rightarrow> [Print (WarnDeletingRendered d e)]))\<rparr>)"
  by (simp add: pv_cleanup_rendered_def try_except_def bnd_def for_each_remove_run print_def
      emit_def rmtree_apply split: option.splits)

lemma agree_pv_cleanup_extracted:
  "same_state w w' \<Longrightarrow>
   agree (pv_cleanup_extracted E options c d fs) (pv_cleanup_extracted E' options' c' d' fs')
     w w'"
  by (simp add: agree_def pv_cleanup_extracted_run)

lemma agree_pv_cleanup_rendered:
  "same_state w w' \<Longrightarrow>
   agree (pv_cleanup_rendered E options c d fs) (pv_cleanup_rendered E' options' c' d' fs')
     w w'"
  by (simp add: agree_def pv_cleanup_rendered_run)

lemma agree_pv_workspace:
  "same_state w w' \<Longrightarrow>
   agree (pv_workspace E options)
     (pv_workspace (E\<lparr>rmtree_err := r, remove_err := q\<rparr>) options) w w'"
  by (auto simp: pv_workspace_def Let_def intro!: agree_rules split: option.splits)

lemma agree_extract_frames:
  "same_state w w' \<Longrightarrow>
   agree (extract_frames E options f)
     (extract_frames (E\<lparr>rmtree_err := r, remove_err := q\<rparr>) options f) w w'"
  by (auto simp: extract_frames_def intro!: agree_rules)

lemma agree_pv_debug_cap:
  "same_state w w' \<Longrightarrow> agree (pv_debug_cap options fs) (pv_debug_cap options fs) w w'"
  by (auto simp: pv_debug_cap_def intro!: agree_rules split: option.splits)

lemma agree_pv_detection:
  "same_state w w' \<Longrightarrow>
   agree (pv_detection E options json f images Fs)
     (pv_detection (E\<lparr>rmtree_err := r, remove_err := q\<rparr>) options json f images Fs) w w'"
  by (auto simp: pv_detection_def intro!: agree_rules)

lemma agree_pv_render:
  "same_state w w' \<Longrightarrow>
   agree (pv_render E options t json f Fs)
     (pv_render (E\<lparr>rmtree_err := r, remove_err := q\<rparr>) options t json f Fs) w w'"
  by (auto simp: pv_render_def Let_def intro!: agree_rules agree_pv_cleanup_rendered
      split: option.splits prod.splits)

lemma agree_process_video:
  "same_state w w' \<Longrightarrow>
   agree (process_video E options)
     (process_video (E\<lparr>rmtree_err := r, remove_err := q\<rparr>) options) w w'"
  by (auto simp: process_video_def Let_def
      intro!: agree_rules agree_pv_workspace agree_extract_frames agree_pv_debug_cap
        agree_pv_detection agree_pv_render agree_pv_cleanup_extracted
      split: prod.splits)

section \<open>Default cleanup of the extracted frames (C5)\<close>

text \<open>A run that returns ends with its last stage, the cleanup of the extracted frames.\<close>

lemma call_run:
  "call ev r w = (r, w\<lparr>events := events w @ [ev]\<rparr>)"
  by (cases r) (simp_all add: call_def bnd_def emit_def)

lemma extract_frames_run:
  "extract_frames E options f w =
     (video_to_frames E (input_video_file options) f (frame_sample options)
        (\<not> reuse_frames_if_available options),
      w\<lparr>events := events w @ [VideoToFrames (input_video_file options) f (frame_sample options)
        (\<not> reuse_frames_if_available options)]\<rparr>)"
  by (simp add: extract_frames_def call_run)

lemma extract_frames_result:
  "extract_frames E options f w = (Inr (fs, Fs), w') \<Longrightarrow>
   video_to_frames E (input_video_file options) f (frame_sample options)
     (\<not> reuse_frames_if_available options) = Inr (fs, Fs)"
  by (simp add: extract_frames_run)

lemma bnd_Inr_iff:
  "bnd m f w = (Inr b, w') \<longleftrightarrow> (\<exists>a w1. m w = (Inr a, w1) \<and> f a w1 = (Inr b, w'))"
  by (auto simp: bnd_def split: prod.splits sum.splits)

lemma emits_result: "emits P m w \<Longrightarrow> m w = (r, w') \<Longrightarrow> \<exists>tr. events w' = events w @ tr"
  by (auto simp: emits_def)

lemma process_video_ends_with_cleanup:
  assumes ff: "frame_folder options = Some folder"
    and nf: "\<not> force_extracted_frame_folder_deletion options"
    and nk: "\<not> keep_extracted_frames options"
    and ex: "video_to_frames E (input_video_file options) folder (frame_sample options)
        (\<not> reuse_frames_if_available options) = Inr (frames, Fs)"
    and ok: "outcome (process_video E options) w = Inr res"
  shows "suffix (extracted_cleanup_log E folder frames) (trace_of (process_video E options) w)"
proof -
  let ?o = "fst (resolve_outputs options)"
  let ?json = "snd (resolve_outputs options)"
  have fo: "pv_frame_output_folder E options w = folder"
    by (simp add: pv_frame_output_folder_def ff)
  obtain wf where run: "process_video E options w = (Inr res, wf)"
    using ok by (cases "process_video E options w") (simp add: outcome_def)
  from run obtain a w1 where W: "pv_workspace E ?o w = (Inr a, w1)"
    and R1: "(case a of (tempdir, frame_output_folder, frame_output_folder_created) \<Rightarrow>
      bnd (extract_frames E ?o frame_output_folder) (\<lambda>(frame_filenames, Fs).
      bnd (pv_debug_cap ?o frame_filenames) (\<lambda>image_file_names.
      bnd (pv_detection E ?o ?json frame_output_folder image_file_names Fs) (\<lambda>res.
      bnd (if render_output_video ?o
           then pv_render E ?o tempdir ?json frame_output_folder Fs
           else ret ()) (\<lambda>_.
      bnd (if \<not> keep_extracted_frames ?o
           then pv_cleanup_extracted E ?o frame_output_folder_created frame_output_folder
                  frame_filenames
           else ret ()) (\<lambda>_.
      ret res)))))) w1 = (Inr res, wf)"
    unfolding process_video_def Let_def case_prod_beta bnd_Inr_iff [of "pv_workspace E ?o"]
    by (auto simp: case_prod_beta)
  obtain t f c where a: "a = (t, f, c)" by (cases a)
  from pv_workspace_result [OF W [unfolded a]] fo ff
  have tfc: "t = pv_tempdir E" "f = folder" "c = False" by simp_all
  from R1 [unfolded a prod.case tfc] obtain fs Fs' w2 where
    X: "extract_frames E ?o folder w1 = (Inr (fs, Fs'), w2)"
    and R2: "bnd (pv_debug_cap ?o fs) (\<lambda>image_file_names.
      bnd (pv_detection E ?o ?json folder image_file_names Fs') (\<lambda>res.
      bnd (if render_output_video ?o
           then pv_render E ?o (pv_tempdir E) ?json folder Fs'
           else ret ()) (\<lambda>_.
      bnd (if \<not> keep_extracted_frames ?o
           then pv_cleanup_extracted E ?o False folder fs
           else ret ()) (\<lambda>_.
      ret res)))) w2 = (Inr res, wf)"
    unfolding bnd_Inr_iff [of "extract_frames E ?o folder"] by auto
  from extract_frames_result [OF X] ex have fs: "fs = frames" "Fs' = Fs" by simp_all
  from R2 obtain imgs w3 where
    C: "pv_debug_cap ?o fs w2 = (Inr imgs, w3)"
    and R3: "bnd (pv_detection E ?o ?json folder imgs Fs') (\<lambda>res.
      bnd (if render_output_video ?o
           then pv_render E ?o (pv_tempdir E) ?json folder Fs'
           else ret ()) (\<lambda>_.
      bnd (if \<not> keep_extracted_frames ?o
           then pv_cleanup_extracted E ?o False folder fs
           else ret ()) (\<lambda>_.
      ret res))) w3 = (Inr res, wf)"
    unfolding bnd_Inr_iff [of "pv_debug_cap ?o fs"] by auto
  from R3 obtain res' w4 where
    D: "pv_detection E ?o ?json folder imgs Fs' w3 = (Inr res', w4)"
    and R4: "bnd (if render_output_video ?o
           then pv_render E ?o (pv_tempdir E) ?json folder Fs'
           else ret ()) (\<lambda>_.
      bnd (if \<not> keep_extracted_frames ?o
           then pv_cleanup_extracted E ?o False folder fs
           else ret ()) (\<lambda>_.
      ret res')) w4 = (Inr res, wf)"
    unfolding bnd_Inr_iff [of "pv_detection E ?o ?json folder imgs Fs'"] by auto
  let ?render = "if render_output_video ?o
           then pv_render E ?o (pv_tempdir E) ?json folder Fs' else ret ()"
  from R4 obtain u w5 where
    V: "?render w4 = (Inr u, w5)"
    and R5: "bnd (pv_cleanup_extracted E ?o False folder fs) (\<lambda>_. ret res') w5 = (Inr res, wf)"
    unfolding bnd_Inr_iff [of ?render] using nk by auto
  from R5 have wf: "wf = snd (pv_cleanup_extracted E ?o False folder fs w5)"
    by (auto simp: bnd_Inr_iff)
  have log: "events wf = events w5 @ extracted_cleanup_log E folder frames"
    using nf by (simp add: wf pv_cleanup_extracted_run extracted_cleanup_log_def fs)
  have e1: "\<exists>tr. events w1 = events w @ tr"
    by (rule emits_result [OF emits_pv_workspace [of "\<lambda>_. True"] W]) simp
  have e2: "\<exists>tr. events w2 = events w1 @ tr"
    by (rule emits_result [OF emits_extract_frames [of "\<lambda>_. True"] X]) simp
  have e3: "\<exists>tr. events w3 = events w2 @ tr"
    by (rule emits_result [OF emits_pv_debug_cap [of "\<lambda>_. True"] C])
  have e4: "\<exists>tr. events w4 = events w3 @ tr"
    by (rule emits_result [OF emits_pv_detection [of "\<lambda>_. True"] D]) simp_all
  have "emits (\<lambda>_. True) ?render w4"
    by (auto intro!: emits_rules emits_pv_render)
  from emits_result [OF this V] have e5: "\<exists>tr. events w5 = events w4 @ tr" .
  from e1 e2 e3 e4 e5 log obtain pre where
    "events wf = events w @ pre @ extracted_cleanup_log E folder frames"
    by auto
  then have "trace_of (process_video E options) w = pre @ extracted_cleanup_log E folder frames"
    by (simp add: trace_of_def run)
  then show ?thesis by (simp add: suffix_def)
qed


lemma supplied_run_outcome:
  "outcome (process_video demo_env supplied_options) start =
     Inr (Detected
       [(''/data/frames/frame0.jpg'', []), (''/data/frames/frame1.jpg'', []),
        (''/data/frames/frame2.jpg'', [])])"
  by (simp add: run_defs supplied_options_def)

text \<open>
  C5, as the code has it.  Take a run of \<^verbatim>\<open>process_video\<close> on a caller-supplied frame
  folder, with the extracted frames not kept and the force flag unset, in which the extraction
  returned the frame files \<open>frames\<close> and the function returned.  The run ends with the cleanup
  of lines 211-223, which never calls \<^verbatim>\<open>shutil.rmtree\<close> and removes the frame files of the
  run, in order, up to the first one whose removal raises.  When no removal raises, it is
  exactly one \<^verbatim>\<open>os.remove\<close> per frame file of the run.
\<close>

theorem default_cleanup_removes_frame_files:
  assumes ff: "frame_folder options = Some folder"
    and nf: "\<not> force_extracted_frame_folder_deletion options"
    and nk: "\<not> keep_extracted_frames options"
    and ex: "video_to_frames E (input_video_file options) folder (frame_sample options)
        (\<not> reuse_frames_if_available options) = Inr (frames, Fs)"
    and ok: "outcome (process_video E options) w = Inr res"
  shows "suffix (extracted_cleanup_log E folder frames) (trace_of (process_video E options) w)
    \<and> removed_files E (extracted_cleanup_log E folder frames)
        = takeWhile (\<lambda>f. remove_err E f = None) frames
    \<and> (\<forall>ev \<in> set (extracted_cleanup_log E folder frames). \<not> is_rmtree ev)
    \<and> ((\<forall>f \<in> set frames. remove_err E f = None) \<longrightarrow>
         extracted_cleanup_log E folder frames = map Remove frames)"
proof -
  let ?log = "extracted_cleanup_log E folder frames"
  have 1: "suffix ?log (trace_of (process_video E options) w)"
    by (rule process_video_ends_with_cleanup [OF ff nf nk ex ok])
  have 2: "removed_files E ?log = takeWhile (\<lambda>f. remove_err E f = None) frames"
    by (simp add: extracted_cleanup_log_def filter_removal_attempts split: option.splits)
  have 3: "\<forall>ev \<in> set ?log. \<not> is_rmtree ev"
    by (auto simp: extracted_cleanup_log_def split: option.splits)
  have 4: "(\<forall>f \<in> set frames. remove_err E f = None) \<longrightarrow> ?log = map Remove frames"
    using removal_all_ok [of frames E] by (auto simp: extracted_cleanup_log_def)
  from 1 2 3 4 show ?thesis by blast
qed

theorem default_cleanup_removes_frame_files_witness:
  "frame_folder supplied_options = Some ''/data/frames''
   \<and> \<not> force_extracted_frame_folder_deletion supplied_options
   \<and> \<not> keep_extracted_frames supplied_options
   \<and> video_to_frames demo_env (input_video_file supplied_options) ''/data/frames''
        (frame_sample supplied_options) (\<not> reuse_frames_if_available supplied_options)
       = Inr ([''/data/frames/frame0.jpg'', ''/data/frames/frame1.jpg'',
               ''/data/frames/frame2.jpg''], 30)
   \<and> remove_err demo_env ''/data/frames/frame0.jpg'' = None
   \<and> remove_err demo_env ''/data/frames/frame1.jpg'' = None
   \<and> remove_err demo_env ''/data/frames/frame2.jpg'' = None
   \<and> suffix (map Remove [''/data/frames/frame0.jpg'', ''/data/frames/frame1.jpg'',
               ''/data/frames/frame2.jpg''])
        (trace_of (process_video demo_env supplied_options) start)"
proof -
  let ?frames = "[''/data/frames/frame0.jpg'', ''/data/frames/frame1.jpg'',
               ''/data/frames/frame2.jpg'']"
  have h1: "frame_folder supplied_options = Some ''/data/frames''"
    by (simp add: supplied_options_def)
  have h2: "\<not> force_extracted_frame_folder_deletion supplied_options"
    by (simp add: supplied_options_def default_options_def)
  have h3: "\<not> keep_extracted_frames supplied_options"
    by (simp add: supplied_options_def default_options_def)
  have h4: "video_to_frames demo_env (input_video_file supplied_options) ''/data/frames''
        (frame_sample supplied_options) (\<not> reuse_frames_if_available supplied_options)
       = Inr (?frames, 30)"
    by (simp add: demo_env_def path_join_def startswith_def endswith_def suffix_to_prefix)
  have h6: "\<forall>f \<in> set ?frames. remove_err demo_env f = None"
    by (simp add: demo_env_def)
  from default_cleanup_removes_frame_files [OF h1 h2 h3 h4 supplied_run_outcome] h6
  have "suffix (map Remove ?frames) (trace_of (process_video demo_env supplied_options) start)"
    by metis
  with h1 h2 h3 h4 h6 show ?thesis by simp
qed

text \<open>
  The claim as stated fails in a run in which a removal raises: the loop is left at the first
  failure, so the frame files after it stay on disk.
\<close>

lemma failing_run_trace:
  "trace_of (process_video failing_remove_env supplied_options) start =
     [Makedirs ''/tmp/process_camera_trap_video'',
      Makedirs ''/tmp/process_camera_trap_video/u_a1'',
      Makedirs ''/data/frames'',
      VideoToFrames ''/v/cam.mp4'' ''/data/frames'' None True,
      RunDetector ''MDV5A''
        [''/data/frames/frame0.jpg'', ''/data/frames/frame1.jpg'', ''/data/frames/frame2.jpg'']
        (Some (5 / 1000)) (Some 1) True None,
      WriteResults
        [(''/data/frames/frame0.jpg'', []), (''/data/frames/frame1.jpg'', []),
         (''/data/frames/frame2.jpg'', [])]
        ''/v/cam.mp4.json'' ''/data/frames'' ''MDV5A'' (FrameRate 30),
      Remove ''/data/frames/frame0.jpg'',
      Print (WarnRemovingExtracted ''/data/frames'' (OSError ''PermissionError''))]"
  by (simp add: run_defs failing_remove_env_def supplied_options_def)

theorem cleanup_stops_at_failed_removal:
  "frame_folder supplied_options = Some ''/data/frames''
   \<and> \<not> keep_extracted_frames supplied_options
   \<and> \<not> force_extracted_frame_folder_deletion supplied_options
   \<and> video_to_frames failing_remove_env ''/v/cam.mp4'' ''/data/frames'' None True
       = Inr ([''/data/frames/frame0.jpg'', ''/data/frames/frame1.jpg'',
               ''/data/frames/frame2.jpg''], 30)
   \<and> Remove ''/data/frames/frame1.jpg''
       \<notin> set (trace_of (process_video failing_remove_env supplied_options) start)
   \<and> removed_files failing_remove_env
        (trace_of (process_video failing_remove_env supplied_options) start) = []"
  by (simp add: failing_run_trace removed_files_def)
     (simp add: failing_remove_env_def demo_env_def supplied_options_def default_options_def
        path_join_def startswith_def endswith_def suffix_to_prefix)

section \<open>Runs that reach the detection stage\<close>

lemma makedirs_ok: "makedirs_err E p = None \<Longrightarrow>
   makedirs E p w = (Inr (), w\<lparr>events := events w @ [Makedirs p]\<rparr>)"
  by (simp add: makedirs_def guarded_def bnd_def emit_def)

lemma pv_workspace_run:
  assumes "\<forall>p\<in>set (pv_workspace_dirs E options w). makedirs_err E p = None"
  shows "pv_workspace E options w =
     (Inr (pv_tempdir E, pv_frame_output_folder E options w, frame_folder options = None),
      w\<lparr>events := events w @ map Makedirs (pv_workspace_dirs E options w),
        uuids_drawn := uuids_drawn w + (if frame_folder options = None then 2 else 1)\<rparr>)"
  using assms
  by (auto simp: pv_workspace_def pv_workspace_dirs_def pv_tempdir_def pv_user_tempdir_def
      pv_frame_output_folder_def Let_def bnd_def makedirs_ok uuid1_def
      split: option.splits)

lemma bnd_Inr: "m w = (Inr a, w') \<Longrightarrow> bnd m f w = f a w'"
  by (simp add: bnd_def)

lemma bnd_Inl: "m w = (Inl e, w') \<Longrightarrow> bnd m f w = (Inl e, w')"
  by (simp add: bnd_def)

lemma pv_debug_cap_run:
  "debug_max_frames options = Some k \<Longrightarrow>
   pv_debug_cap options fs w = (Inr (capped k fs), w)"
  by (simp add: pv_debug_cap_def capped_def)

lemma process_video_reached:
  assumes dirs: "\<forall>p\<in>set (pv_workspace_dirs E options w). makedirs_err E p = None"
    and ex: "video_to_frames E (input_video_file options) (pv_frame_output_folder E options w)
        (frame_sample options) (\<not> reuse_frames_if_available options) = Inr (frames, Fs)"
    and cap: "debug_max_frames options = Some k"
  shows "\<exists>w2. process_video E options w =
       pv_from_detection E (fst (resolve_outputs options)) (snd (resolve_outputs options))
         (pv_tempdir E) (pv_frame_output_folder E options w) (frame_folder options = None)
         frames (capped k frames) Fs w2
     \<and> events w2 = events w @ map Makedirs (pv_workspace_dirs E options w)
            @ [VideoToFrames (input_video_file options) (pv_frame_output_folder E options w)
                 (frame_sample options) (\<not> reuse_frames_if_available options)]
     \<and> files w2 = files w"
proof -
  let ?o = "fst (resolve_outputs options)"
  let ?w1 = "w\<lparr>events := events w @ map Makedirs (pv_workspace_dirs E options w),
        uuids_drawn := uuids_drawn w + (if frame_folder options = None then 2 else 1)\<rparr>"
  let ?f = "pv_frame_output_folder E options w"
  let ?w2 = "?w1\<lparr>events := events ?w1 @ [VideoToFrames (input_video_file options) ?f
      (frame_sample options) (\<not> reuse_frames_if_available options)]\<rparr>"
  have W: "pv_workspace E ?o w = (Inr (pv_tempdir E, ?f, frame_folder options = None), ?w1)"
    using pv_workspace_run [of E ?o w] dirs by (simp add: pv_workspace_dirs_def)
  have X: "extract_frames E ?o ?f ?w1 = (Inr (frames, Fs), ?w2)"
    by (simp add: extract_frames_run ex)
  have C: "pv_debug_cap ?o frames ?w2 = (Inr (capped k frames), ?w2)"
    by (rule pv_debug_cap_run) (simp add: cap)
  have "process_video E options w =
     pv_from_detection E ?o (snd (resolve_outputs options)) (pv_tempdir E) ?f
       (frame_folder options = None) frames (capped k frames) Fs ?w2"
    unfolding process_video_def Let_def case_prod_beta pv_from_detection_def
    by (simp only: bnd_Inr [of "pv_workspace E ?o" w, OF W]
        bnd_Inr [of "extract_frames E ?o ?f" ?w1, OF X]
        bnd_Inr [of "pv_debug_cap ?o frames" ?w2, OF C] fst_conv snd_conv prod.case)
  moreover have "events ?w2 = events w @ map Makedirs (pv_workspace_dirs E options w)
            @ [VideoToFrames (input_video_file options) ?f
                 (frame_sample options) (\<not> reuse_frames_if_available options)]"
    by simp
  moreover have "files ?w2 = files w" by simp
  ultimately show ?thesis by blast
qed

lemma trace_of_continued:
  assumes "m w = m' w2" and "events w2 = events w @ pre" and "emits P m' w2"
  shows "trace_of m w = pre @ trace_of m' w2"
proof -
  have "events (snd (m' w2)) = events w2 @ trace_of m' w2"
    using assms(3) by (rule emits_events)
  then have "events (snd (m w)) = events w @ pre @ trace_of m' w2"
    using assms(1,2) by simp
  then show ?thesis
    unfolding trace_of_def [of m w] by simp
qed

lemma pv_detection_unfold:
  "pv_detection E options json f images Fs w =
     (if reuse_results_if_available options \<and> files w json \<noteq> None
      then bnd (print (LoadingResults json)) (\<lambda>_.
           bnd (json_load json) (\<lambda>loaded. ret (Loaded loaded))) w
      else bnd (run_detector E (model_file options) images
                (json_confidence_threshold options) (n_cores options) (\<not> verbose options)
                (class_mapping_filename options)) (\<lambda>res.
           bnd (write_results_to_file E res json f (model_file options)
                (FrameRate Fs)) (\<lambda>_.
           ret (Detected res))) w)"
  by (auto simp: pv_detection_def isfile_def bnd_def)

lemma emits_cong: "m w = m' w \<Longrightarrow> emits P m' w \<Longrightarrow> emits P m w"
  by (simp add: emits_def)

lemma emits_pv_detection_cond:
  assumes "\<And>m. P (Print m)" "\<And>p. P (JsonLoad p)" "\<And>a b c d e. P (WriteResults a b c d e)"
    "\<not> (reuse_results_if_available options \<and> files w json \<noteq> None)
       \<Longrightarrow> P (RunDetector (model_file options) images (json_confidence_threshold options)
             (n_cores options) (\<not> verbose options) (class_mapping_filename options))"
  shows "emits P (pv_detection E options json f images Fs) w"
proof (cases "reuse_results_if_available options \<and> files w json \<noteq> None")
  case True
  show ?thesis
    by (rule emits_cong [OF pv_detection_unfold])
       (use True assms in \<open>auto intro!: emits_rules\<close>)
next
  case False
  show ?thesis
    by (rule emits_cong [OF pv_detection_unfold])
       (use False assms in \<open>auto intro!: emits_rules\<close>)
qed

lemma emits_pv_from_detection:
  assumes "\<And>m. P (Print m)" "\<And>f. P (Remove f)" "\<And>p. P (Makedirs p)"
    "\<And>a b c d e. P (Visualize a b c d e)" "\<And>p. P (JsonLoad p)"
    "\<And>a b c d e. P (WriteResults a b c d e)"
    "\<And>p. P (Rmtree p)"
    "\<not> (reuse_results_if_available options \<and> files w json \<noteq> None)
       \<Longrightarrow> P (RunDetector (model_file options) images (json_confidence_threshold options)
             (n_cores options) (\<not> verbose options) (class_mapping_filename options))"
    "\<And>fs c.
       P (FramesToVideo fs (stitch_rate Fs (frame_sample options)) (output_video_file options) c)"
  shows "emits P (pv_from_detection E options json t f created frames images Fs) w"
  unfolding pv_from_detection_def
  apply (rule emits_bnd)
   apply (rule emits_pv_detection_cond; (rule assms)?)
   apply assumption
  apply (rule emits_bnd)
   apply (auto intro!: emits_rules emits_pv_render emits_pv_cleanup_extracted assms)
  done


lemma trace_of_bnd_mono:
  assumes "emits P m w" and "\<And>a w'. m w = (Inr a, w') \<Longrightarrow> emits Q (f a) w'"
  shows "set (trace_of m w) \<subseteq> set (trace_of (bnd m f) w)"
proof (cases "m w")
  case (Pair r w')
  have ev: "events w' = events w @ trace_of m w"
    using emits_events [OF assms(1)] Pair by simp
  show ?thesis
  proof (cases r)
    case (Inl e)
    with Pair show ?thesis by (simp add: trace_of_def bnd_def)
  next
    case (Inr a)
    with Pair assms(2) have "emits Q (f a) w'" by simp
    then have "events (snd (f a w')) = events w' @ trace_of (f a) w'"
      by (rule emits_events)
    with ev Pair Inr have "trace_of (bnd m f) w = trace_of m w @ trace_of (f a) w'"
      unfolding trace_of_def [of "bnd m f" w] by (simp add: bnd_def)
    then show ?thesis by simp
  qed
qed

lemma write_results_run:
  "\<exists>w'. write_results_to_file E res p b d meta w =
     ((case write_results_err E p of None \<Rightarrow> Inr () | Some e \<Rightarrow> Inl e), w')
   \<and> events w' = events w @ [WriteResults res p b d meta]"
  by (simp add: write_results_to_file_def guarded_def bnd_def emit_def split: option.splits)

lemma pv_detection_trace_run:
  assumes "\<not> (reuse_results_if_available options \<and> files w json \<noteq> None)"
  shows "RunDetector (model_file options) images (json_confidence_threshold options)
             (n_cores options) (\<not> verbose options) (class_mapping_filename options)
           \<in> set (trace_of (pv_detection E options json f images Fs) w)
     \<and> (\<forall>res. load_and_run_detector_batch E (model_file options) images
               (json_confidence_threshold options) (n_cores options) (\<not> verbose options)
               (class_mapping_filename options) = Inr res
          \<longrightarrow> WriteResults res json f (model_file options) (FrameRate Fs)
                \<in> set (trace_of (pv_detection E options json f images Fs) w))"
proof -
  let ?r = "load_and_run_detector_batch E (model_file options) images
               (json_confidence_threshold options) (n_cores options) (\<not> verbose options)
               (class_mapping_filename options)"
  let ?ev = "RunDetector (model_file options) images (json_confidence_threshold options)
             (n_cores options) (\<not> verbose options) (class_mapping_filename options)"
  let ?w1 = "w\<lparr>events := events w @ [?ev]\<rparr>"
  have rd: "run_detector E (model_file options) images (json_confidence_threshold options)
             (n_cores options) (\<not> verbose options) (class_mapping_filename options) w
            = (?r, ?w1)"
    by (simp add: run_detector_def call_run)
  have unf: "pv_detection E options json f images Fs w =
      bnd (run_detector E (model_file options) images
                (json_confidence_threshold options) (n_cores options) (\<not> verbose options)
                (class_mapping_filename options)) (\<lambda>res.
           bnd (write_results_to_file E res json f (model_file options)
                (FrameRate Fs)) (\<lambda>_.
           ret (Detected res))) w"
    by (subst pv_detection_unfold, subst if_not_P [OF assms], rule refl)
  show ?thesis
  proof (cases ?r)
    case (Inl e)
    then show ?thesis
      using rd by (simp add: trace_of_def unf bnd_def)
  next
    case (Inr res)
    obtain w' where wr: "write_results_to_file E res json f (model_file options) (FrameRate Fs) ?w1
        = ((case write_results_err E json of None \<Rightarrow> Inr () | Some e \<Rightarrow> Inl e), w')"
      and ev: "events w' = events ?w1 @ [WriteResults res json f (model_file options) (FrameRate Fs)]"
      using write_results_run [of E res json f "model_file options" "FrameRate Fs" ?w1] by blast
    show ?thesis
      using rd Inr wr ev
      by (simp add: trace_of_def unf bnd_def split: option.splits)
  qed
qed

lemma not_detector_run [simp]:
  "\<not> is_detector_run (Makedirs p)" "\<not> is_detector_run (VideoToFrames a b c d)"
  by simp_all

lemma pv_detection_skipped_iff_reuse:
  assumes dirs: "\<forall>p\<in>set (pv_workspace_dirs E options w). makedirs_err E p = None"
    and ex: "video_to_frames E (input_video_file options) (pv_frame_output_folder E options w)
        (frame_sample options) (\<not> reuse_frames_if_available options) = Inr (frames, Fs)"
    and cap: "debug_max_frames options = Some k"
  shows "(list_ex is_detector_run (trace_of (process_video E options) w)
           \<longleftrightarrow> \<not> (reuse_results_if_available options
                   \<and> files w (snd (resolve_outputs options)) \<noteq> None))
     \<and> (\<not> (reuse_results_if_available options
            \<and> files w (snd (resolve_outputs options)) \<noteq> None) \<longrightarrow>
         RunDetector (model_file options) (capped k frames) (json_confidence_threshold options)
             (n_cores options) (\<not> verbose options) (class_mapping_filename options)
           \<in> set (trace_of (process_video E options) w)
         \<and> (\<forall>res. load_and_run_detector_batch E (model_file options) (capped k frames)
               (json_confidence_threshold options) (n_cores options) (\<not> verbose options)
               (class_mapping_filename options) = Inr res
              \<longrightarrow> WriteResults res (snd (resolve_outputs options))
                    (pv_frame_output_folder E options w) (model_file options) (FrameRate Fs)
                    \<in> set (trace_of (process_video E options) w)))"
proof -
  let ?o = "fst (resolve_outputs options)"
  let ?json = "snd (resolve_outputs options)"
  let ?f = "pv_frame_output_folder E options w"
  let ?rest = "pv_from_detection E ?o ?json (pv_tempdir E) ?f (frame_folder options = None)
         frames (capped k frames) Fs"
  let ?pre = "map Makedirs (pv_workspace_dirs E options w)
            @ [VideoToFrames (input_video_file options) ?f
                 (frame_sample options) (\<not> reuse_frames_if_available options)]"
  let ?skip = "reuse_results_if_available options \<and> files w ?json \<noteq> None"
  from process_video_reached [OF dirs ex cap] obtain w2 where
    run: "process_video E options w = ?rest w2" and ev: "events w2 = events w @ ?pre"
    and fl: "files w2 = files w" by blast
  have all: "emits (\<lambda>_. True) ?rest w2"
    by (rule emits_pv_from_detection) simp_all
  have tr: "trace_of (process_video E options) w = ?pre @ trace_of ?rest w2"
    using run ev all by (rule trace_of_continued)
  have pre: "\<not> list_ex is_detector_run ?pre"
    by (simp add: list_ex_iff image_iff)
  have skip: "\<not> list_ex is_detector_run (trace_of ?rest w2)" if ?skip
  proof -
    have "emits (\<lambda>ev. \<not> is_detector_run ev) ?rest w2"
      by (rule emits_pv_from_detection) (use that fl in simp_all)
    then have "list_all (\<lambda>ev. \<not> is_detector_run ev) (trace_of ?rest w2)"
      by (rule emits_trace)
    then show ?thesis by (simp add: list_all_iff list_ex_iff)
  qed
  have sub: "set (trace_of (pv_detection E ?o ?json ?f (capped k frames) Fs) w2)
      \<subseteq> set (trace_of ?rest w2)"
    unfolding pv_from_detection_def
    by (rule trace_of_bnd_mono [where P = "\<lambda>_. True" and Q = "\<lambda>_. True"])
       (auto intro!: emits_rules emits_pv_detection_cond emits_pv_render
          emits_pv_cleanup_extracted)
  have runs: "RunDetector (model_file options) (capped k frames)
             (json_confidence_threshold options)
             (n_cores options) (\<not> verbose options) (class_mapping_filename options)
           \<in> set (trace_of ?rest w2)
     \<and> (\<forall>res. load_and_run_detector_batch E (model_file options) (capped k frames)
               (json_confidence_threshold options) (n_cores options) (\<not> verbose options)
               (class_mapping_filename options) = Inr res
          \<longrightarrow> WriteResults res ?json ?f (model_file options) (FrameRate Fs)
                \<in> set (trace_of ?rest w2))" if "\<not> ?skip"
    using pv_detection_trace_run [where options = ?o and w = w2 and json = ?json and E = E
        and images = "capped k frames" and f = ?f and Fs = Fs] that fl sub
    by auto
  have exrun: "list_ex is_detector_run (trace_of ?rest w2)" if "\<not> ?skip"
  proof -
    from runs [OF that] have "RunDetector (model_file options) (capped k frames)
             (json_confidence_threshold options)
             (n_cores options) (\<not> verbose options) (class_mapping_filename options)
           \<in> set (trace_of ?rest w2)" by blast
    moreover have "is_detector_run (RunDetector (model_file options) (capped k frames)
             (json_confidence_threshold options)
             (n_cores options) (\<not> verbose options) (class_mapping_filename options))"
      by simp
    ultimately show ?thesis unfolding list_ex_iff by blast
  qed
  show ?thesis
  proof (cases ?skip)
    case True
    from skip [OF True] pre
    have "\<not> list_ex is_detector_run (trace_of (process_video E options) w)"
      by (simp add: tr)
    with True show ?thesis by blast
  next
    case False
    from exrun [OF False]
    have 1: "list_ex is_detector_run (trace_of (process_video E options) w)"
      by (simp add: tr)
    from runs [OF False]
    have 2: "RunDetector (model_file options) (capped k frames)
             (json_confidence_threshold options)
             (n_cores options) (\<not> verbose options) (class_mapping_filename options)
           \<in> set (trace_of (process_video E options) w)"
      and 3: "\<forall>res. load_and_run_detector_batch E (model_file options) (capped k frames)
               (json_confidence_threshold options) (n_cores options) (\<not> verbose options)
               (class_mapping_filename options) = Inr res
          \<longrightarrow> WriteResults res ?json ?f (model_file options) (FrameRate Fs)
                \<in> set (trace_of (process_video E options) w)"
      by (simp_all add: tr)
    from False 1 2 3 show ?thesis by blast
  qed
qed


lemma print_run: "print m w = (Inr (), w\<lparr>events := events w @ [Print m]\<rparr>)"
  by (simp add: print_def emit_def)

lemma process_video_folder_reached:
  assumes dir: "isdir E (input_video_file options)"
    and json: "output_json_file options = Some video_json"
    and suffix: "endswith video_json ''.json''"
    and dirs: "\<forall>p\<in>set (pvf_workspace_dirs E options w video_json). makedirs_err E p = None"
    and ex: "video_folder_to_frames E (input_video_file options)
        (pvf_frame_output_folder E options w) (recursive options)
        (\<not> reuse_frames_if_available options) (n_cores options) (frame_sample options)
        (verbose options) = Inr (frame_filenames, Fs, video_filenames)"
  shows "\<exists>w2. process_video_folder E options w =
       (if concat frame_filenames = []
        then print (if video_filenames = [] then NoVideosFound (input_video_file options)
                    else NoFramesExtracted (input_video_file options))
        else pvf_from_detection E options video_json (pvf_frames_json video_json)
               (pvf_tempdir E options) (pvf_frame_output_folder E options w)
               (pvf_image_file_names options (concat frame_filenames)) Fs) w2
     \<and> events w2 = events w @ map Makedirs (pvf_workspace_dirs E options w video_json)
          @ [Print ExtractingFrames,
             VideoFolderToFrames (input_video_file options)
               (pvf_frame_output_folder E options w) (recursive options)
               (\<not> reuse_frames_if_available options) (n_cores options) (frame_sample options)
               (verbose options)]
     \<and> files w2 = files w"
proof (cases "frame_folder options")
  case None
  let ?w2 = "w\<lparr>uuids_drawn := uuids_drawn w + 2,
          events := events w @ map Makedirs (pvf_workspace_dirs E options w video_json)
          @ [Print ExtractingFrames,
             VideoFolderToFrames (input_video_file options)
               (pvf_frame_output_folder E options w) (recursive options)
               (\<not> reuse_frames_if_available options) (n_cores options) (frame_sample options)
               (verbose options)]\<rparr>"
  show ?thesis
    apply (rule exI [of _ ?w2])
    using assms None
    apply (simp add: process_video_folder_def py_assert_def Let_def bnd_def makedirs_ok
        uuid1_def print_run call_run pvf_workspace_dirs_def pvf_frame_output_folder_def
        pv_tempdir_def pv_user_tempdir_def pvf_from_detection_def pvf_frames_json_def
        pvf_tempdir_def pvf_image_file_names_def capped_def
        split: option.splits)
    done
next
  case (Some f)
  let ?w2 = "w\<lparr>events := events w @ map Makedirs (pvf_workspace_dirs E options w video_json)
          @ [Print ExtractingFrames,
             VideoFolderToFrames (input_video_file options)
               (pvf_frame_output_folder E options w) (recursive options)
               (\<not> reuse_frames_if_available options) (n_cores options) (frame_sample options)
               (verbose options)]\<rparr>"
  show ?thesis
    apply (rule exI [of _ ?w2])
    using assms Some
    apply (simp add: process_video_folder_def py_assert_def Let_def bnd_def makedirs_ok
        uuid1_def print_run call_run pvf_workspace_dirs_def pvf_frame_output_folder_def
        pv_tempdir_def pv_user_tempdir_def pvf_from_detection_def pvf_frames_json_def
        pvf_tempdir_def pvf_image_file_names_def capped_def
        split: option.splits)
    done
qed


lemma emits_aggregate_results:
  "P (FrameToVideoResults fj vj) \<Longrightarrow> emits P (aggregate_results E fj vj) w"
  by (auto simp: aggregate_results_def emits_def bnd_def call_run
      split: sum.splits option.splits file_content.splits)

lemma emits_pvf_render:
  "(\<And>p. P (Makedirs p)) \<Longrightarrow> (\<And>a b c d e. P (Visualize a b c d e)) \<Longrightarrow>
   emits P (pvf_render E options t fj f) w"
  by (auto simp: pvf_render_def intro!: emits_rules split: option.splits prod.splits)

lemma pvf_detection_unfold:
  "pvf_detection E options fj f images Fs w =
     (if reuse_results_if_available options \<and> files w fj \<noteq> None
      then bnd (print (LoadingResults fj)) (\<lambda>_. ret None) w
      else bnd (print RunningMegaDetector) (\<lambda>_.
           bnd (run_detector E (model_file options) images
                (json_confidence_threshold options) (n_cores options) (\<not> verbose options)
                (class_mapping_filename options)) (\<lambda>res.
           bnd (write_results_to_file E res fj f (model_file options)
                (FrameRates Fs)) (\<lambda>_.
           ret (Some res)))) w)"
  by (auto simp: pvf_detection_def isfile_def bnd_def)

lemma emits_pvf_detection_cond:
  assumes "\<And>m. P (Print m)" "\<And>a b c d e. P (WriteResults a b c d e)"
    "\<not> (reuse_results_if_available options \<and> files w fj \<noteq> None)
       \<Longrightarrow> P (RunDetector (model_file options) images (json_confidence_threshold options)
             (n_cores options) (\<not> verbose options) (class_mapping_filename options))"
  shows "emits P (pvf_detection E options fj f images Fs) w"
proof (cases "reuse_results_if_available options \<and> files w fj \<noteq> None")
  case True
  show ?thesis
    by (rule emits_cong [OF pvf_detection_unfold])
       (use True assms in \<open>auto intro!: emits_rules\<close>)
next
  case False
  show ?thesis
    by (rule emits_cong [OF pvf_detection_unfold])
       (use False assms in \<open>auto intro!: emits_rules\<close>)
qed

lemma emits_pvf_from_detection:
  assumes "\<And>m. P (Print m)" "\<And>p. P (Makedirs p)"
    "\<And>a b c d e. P (Visualize a b c d e)"
    "\<And>a b c d e. P (WriteResults a b c d e)"
    "\<And>a b. P (FrameToVideoResults a b)"
    "\<not> (reuse_results_if_available options \<and> files w fj \<noteq> None)
       \<Longrightarrow> P (RunDetector (model_file options) images (json_confidence_threshold options)
             (n_cores options) (\<not> verbose options) (class_mapping_filename options))"
  shows "emits P (pvf_from_detection E options vj fj t f images Fs) w"
  unfolding pvf_from_detection_def
  apply (rule emits_bnd)
   apply (rule emits_pvf_detection_cond; (rule assms)?)
   apply assumption
  apply (auto intro!: emits_rules emits_aggregate_results emits_pvf_render assms)
  done

lemma pvf_detection_trace_run:
  assumes "\<not> (reuse_results_if_available options \<and> files w fj \<noteq> None)"
  shows "RunDetector (model_file options) images (json_confidence_threshold options)
             (n_cores options) (\<not> verbose options) (class_mapping_filename options)
           \<in> set (trace_of (pvf_detection E options fj f images Fs) w)
     \<and> (\<forall>res. load_and_run_detector_batch E (model_file options) images
               (json_confidence_threshold options) (n_cores options) (\<not> verbose options)
               (class_mapping_filename options) = Inr res
          \<longrightarrow> WriteResults res fj f (model_file options) (FrameRates Fs)
                \<in> set (trace_of (pvf_detection E options fj f images Fs) w))"
proof -
  let ?r = "load_and_run_detector_batch E (model_file options) images
               (json_confidence_threshold options) (n_cores options) (\<not> verbose options)
               (class_mapping_filename options)"
  let ?ev = "RunDetector (model_file options) images (json_confidence_threshold options)
             (n_cores options) (\<not> verbose options) (class_mapping_filename options)"
  let ?w0 = "w\<lparr>events := events w @ [Print RunningMegaDetector]\<rparr>"
  let ?w1 = "?w0\<lparr>events := events ?w0 @ [?ev]\<rparr>"
  have rd: "run_detector E (model_file options) images (json_confidence_threshold options)
             (n_cores options) (\<not> verbose options) (class_mapping_filename options) ?w0
            = (?r, ?w1)"
    by (simp add: run_detector_def call_run)
  have unf: "pvf_detection E options fj f images Fs w =
      bnd (print RunningMegaDetector) (\<lambda>_.
           bnd (run_detector E (model_file options) images
                (json_confidence_threshold options) (n_cores options) (\<not> verbose options)
                (class_mapping_filename options)) (\<lambda>res.
           bnd (write_results_to_file E res fj f (model_file options)
                (FrameRates Fs)) (\<lambda>_.
           ret (Some res)))) w"
    by (subst pvf_detection_unfold, subst if_not_P [OF assms], rule refl)
  show ?thesis
  proof (cases ?r)
    case (Inl e)
    then show ?thesis
      using rd by (simp add: trace_of_def unf bnd_def print_run)
  next
    case (Inr res)
    obtain w' where wr: "write_results_to_file E res fj f (model_file options) (FrameRates Fs) ?w1
        = ((case write_results_err E fj of None \<Rightarrow> Inr () | Some e \<Rightarrow> Inl e), w')"
      and ev: "events w' = events ?w1 @ [WriteResults res fj f (model_file options) (FrameRates Fs)]"
      using write_results_run [of E res fj f "model_file options" "FrameRates Fs" ?w1] by blast
    show ?thesis
      using rd Inr wr ev
      by (simp add: trace_of_def unf bnd_def print_run split: option.splits)
  qed
qed

text \<open>
  C9.  When the options pass the validation of lines 237-243, the directories can be created and
  the extractor returns without a single frame, \<^verbatim>\<open>process_video_folder\<close> returns normally.
  Its log ends with one of two different messages: "No videos found" when the extractor found no
  video, "No frames extracted ... unsupported video codec" when it found videos; nothing else
  (no detector run, no file written) follows the extraction.
\<close>

theorem folder_without_frames_returns:
  assumes dir: "isdir E (input_video_file options)"
    and json: "output_json_file options = Some video_json"
    and suffix: "endswith video_json ''.json''"
    and dirs: "\<forall>p\<in>set (pvf_workspace_dirs E options w video_json). makedirs_err E p = None"
    and ex: "video_folder_to_frames E (input_video_file options)
        (pvf_frame_output_folder E options w) (recursive options)
        (\<not> reuse_frames_if_available options) (n_cores options) (frame_sample options)
        (verbose options) = Inr (frame_filenames, Fs, video_filenames)"
    and none: "concat frame_filenames = []"
  shows "outcome (process_video_folder E options) w = Inr ()
     \<and> trace_of (process_video_folder E options) w =
         map Makedirs (pvf_workspace_dirs E options w video_json)
          @ [Print ExtractingFrames,
             VideoFolderToFrames (input_video_file options)
               (pvf_frame_output_folder E options w) (recursive options)
               (\<not> reuse_frames_if_available options) (n_cores options) (frame_sample options)
               (verbose options),
             Print (if video_filenames = [] then NoVideosFound (input_video_file options)
                    else NoFramesExtracted (input_video_file options))]"
proof -
  from process_video_folder_reached [OF dir json suffix dirs ex] obtain w2 where
    run0: "process_video_folder E options w =
       (if concat frame_filenames = []
        then print (if video_filenames = [] then NoVideosFound (input_video_file options)
                    else NoFramesExtracted (input_video_file options))
        else pvf_from_detection E options video_json (pvf_frames_json video_json)
               (pvf_tempdir E options) (pvf_frame_output_folder E options w)
               (pvf_image_file_names options (concat frame_filenames)) Fs) w2"
    and ev: "events w2 = events w @ map Makedirs (pvf_workspace_dirs E options w video_json)
          @ [Print ExtractingFrames,
             VideoFolderToFrames (input_video_file options)
               (pvf_frame_output_folder E options w) (recursive options)
               (\<not> reuse_frames_if_available options) (n_cores options) (frame_sample options)
               (verbose options)]"
    by blast
  have run: "process_video_folder E options w =
       print (if video_filenames = [] then NoVideosFound (input_video_file options)
                    else NoFramesExtracted (input_video_file options)) w2"
    using run0 unfolding if_P [OF none] .
  show ?thesis
    by (simp add: outcome_def trace_of_def run print_run ev)
qed

lemma pvf_detection_skipped_iff_reuse:
  assumes dir: "isdir E (input_video_file options)"
    and json: "output_json_file options = Some video_json"
    and suffix: "endswith video_json ''.json''"
    and dirs: "\<forall>p\<in>set (pvf_workspace_dirs E options w video_json). makedirs_err E p = None"
    and ex: "video_folder_to_frames E (input_video_file options)
        (pvf_frame_output_folder E options w) (recursive options)
        (\<not> reuse_frames_if_available options) (n_cores options) (frame_sample options)
        (verbose options) = Inr (frame_filenames, Fs, video_filenames)"
    and some: "concat frame_filenames \<noteq> []"
  shows "(list_ex is_detector_run (trace_of (process_video_folder E options) w)
           \<longleftrightarrow> \<not> (reuse_results_if_available options
                   \<and> files w (pvf_frames_json video_json) \<noteq> None))
     \<and> (\<not> (reuse_results_if_available options
            \<and> files w (pvf_frames_json video_json) \<noteq> None) \<longrightarrow>
         RunDetector (model_file options) (pvf_image_file_names options (concat frame_filenames))
             (json_confidence_threshold options)
             (n_cores options) (\<not> verbose options) (class_mapping_filename options)
           \<in> set (trace_of (process_video_folder E options) w)
         \<and> (\<forall>res. load_and_run_detector_batch E (model_file options)
               (pvf_image_file_names options (concat frame_filenames))
               (json_confidence_threshold options) (n_cores options) (\<not> verbose options)
               (class_mapping_filename options) = Inr res
              \<longrightarrow> WriteResults res (pvf_frames_json video_json)
                    (pvf_frame_output_folder E options w) (model_file options) (FrameRates Fs)
                    \<in> set (trace_of (process_video_folder E options) w)))"
proof -
  let ?fj = "pvf_frames_json video_json"
  let ?f = "pvf_frame_output_folder E options w"
  let ?imgs = "pvf_image_file_names options (concat frame_filenames)"
  let ?rest = "pvf_from_detection E options video_json ?fj (pvf_tempdir E options) ?f ?imgs Fs"
  let ?pre = "map Makedirs (pvf_workspace_dirs E options w video_json)
          @ [Print ExtractingFrames,
             VideoFolderToFrames (input_video_file options) ?f (recursive options)
               (\<not> reuse_frames_if_available options) (n_cores options) (frame_sample options)
               (verbose options)]"
  let ?skip = "reuse_results_if_available options \<and> files w ?fj \<noteq> None"
  let ?run = "RunDetector (model_file options) ?imgs (json_confidence_threshold options)
             (n_cores options) (\<not> verbose options) (class_mapping_filename options)"
  from process_video_folder_reached [OF dir json suffix dirs ex] obtain w2 where
    run0: "process_video_folder E options w =
       (if concat frame_filenames = []
        then print (if video_filenames = [] then NoVideosFound (input_video_file options)
                    else NoFramesExtracted (input_video_file options))
        else ?rest) w2"
    and ev: "events w2 = events w @ ?pre"
    and fl: "files w2 = files w" by blast
  have run: "process_video_folder E options w = ?rest w2"
    using run0 unfolding if_not_P [OF some] .
  have all: "emits (\<lambda>_. True) ?rest w2"
    by (rule emits_pvf_from_detection) simp_all
  have tr: "trace_of (process_video_folder E options) w = ?pre @ trace_of ?rest w2"
    using run ev all by (rule trace_of_continued)
  have pre: "\<not> list_ex is_detector_run ?pre"
    by (simp add: list_ex_iff image_iff)
  have skip: "\<not> list_ex is_detector_run (trace_of ?rest w2)" if ?skip
  proof -
    have "emits (\<lambda>ev. \<not> is_detector_run ev) ?rest w2"
      by (rule emits_pvf_from_detection) (use that fl in simp_all)
    then have "list_all (\<lambda>ev. \<not> is_detector_run ev) (trace_of ?rest w2)"
      by (rule emits_trace)
    then show ?thesis by (simp add: list_all_iff list_ex_iff)
  qed
  have sub: "set (trace_of (pvf_detection E options ?fj ?f ?imgs Fs) w2)
      \<subseteq> set (trace_of ?rest w2)"
    unfolding pvf_from_detection_def
    by (rule trace_of_bnd_mono [where P = "\<lambda>_. True" and Q = "\<lambda>_. True"])
       (auto intro!: emits_rules emits_pvf_detection_cond emits_aggregate_results
          emits_pvf_render)
  have runs: "?run \<in> set (trace_of ?rest w2)
     \<and> (\<forall>res. load_and_run_detector_batch E (model_file options) ?imgs
               (json_confidence_threshold options) (n_cores options) (\<not> verbose options)
               (class_mapping_filename options) = Inr res
          \<longrightarrow> WriteResults res ?fj ?f (model_file options) (FrameRates Fs)
                \<in> set (trace_of ?rest w2))" if "\<not> ?skip"
    using pvf_detection_trace_run [where options = options and w = w2 and fj = ?fj and E = E
        and images = ?imgs and f = ?f and Fs = Fs] that fl sub
    by auto
  have exrun: "list_ex is_detector_run (trace_of ?rest w2)" if "\<not> ?skip"
  proof -
    from runs [OF that] have "?run \<in> set (trace_of ?rest w2)" by blast
    moreover have "is_detector_run ?run" by simp
    ultimately show ?thesis unfolding list_ex_iff by blast
  qed
  show ?thesis
  proof (cases ?skip)
    case True
    from skip [OF True] pre
    have "\<not> list_ex is_detector_run (trace_of (process_video_folder E options) w)"
      by (simp add: tr)
    with True show ?thesis by blast
  next
    case False
    from exrun [OF False]
    have 1: "list_ex is_detector_run (trace_of (process_video_folder E options) w)"
      by (simp add: tr)
    from runs [OF False]
    have 2: "?run \<in> set (trace_of (process_video_folder E options) w)"
      and 3: "\<forall>res. load_and_run_detector_batch E (model_file options) ?imgs
               (json_confidence_threshold options) (n_cores options) (\<not> verbose options)
               (class_mapping_filename options) = Inr res
          \<longrightarrow> WriteResults res ?fj ?f (model_file options) (FrameRates Fs)
                \<in> set (trace_of (process_video_folder E options) w)"
      by (simp_all add: tr)
    from False 1 2 3 show ?thesis by blast
  qed
qed

section \<open>Cleanup failures are warnings (C6)\<close>

lemma logs_trace: "logs Q m w \<Longrightarrow> Q (trace_of m w)"
  by (auto simp: logs_def trace_of_def)

lemma logs_emits: "emits P m w \<Longrightarrow> (\<And>tr. list_all P tr \<Longrightarrow> Q tr) \<Longrightarrow> logs Q m w"
  by (auto simp: emits_def logs_def)

lemma logs_bnd:
  assumes "logs Q m w" and "\<And>a w'. m w = (Inr a, w') \<Longrightarrow> logs Q (f a) w'"
    and app: "\<And>t1 t2. Q t1 \<Longrightarrow> Q t2 \<Longrightarrow> Q (t1 @ t2)"
  shows "logs Q (bnd m f) w"
proof (cases "m w")
  case (Pair r w')
  from assms(1) Pair obtain tr where tr: "events w' = events w @ tr" "Q tr"
    by (auto simp: logs_def)
  show ?thesis
  proof (cases r)
    case (Inl e)
    with Pair tr show ?thesis by (auto simp: logs_def bnd_def)
  next
    case (Inr a)
    with Pair assms(2) obtain tr' where
      tr': "events (snd (f a w')) = events w' @ tr'" "Q tr'"
      by (auto simp: logs_def)
    have "Q (tr @ tr')" using tr(2) tr'(2) by (rule app)
    with Pair Inr tr tr' show ?thesis by (auto simp: logs_def bnd_def)
  qed
qed

lemma warned_append:
  "warned E rd fd t1 \<Longrightarrow> warned E rd fd t2 \<Longrightarrow> warned E rd fd (t1 @ t2)"
  by (fastforce simp: warned_def split: option.splits)

lemma warned_quiet: "list_all (\<lambda>ev. raised E ev = None) tr \<Longrightarrow> warned E rd fd tr"
  by (auto simp: warned_def list_all_iff)

lemma logs_quiet:
  "emits (\<lambda>ev. raised E ev = None) m w \<Longrightarrow> logs (warned E rd fd) m w"
  by (erule logs_emits) (rule warned_quiet)

lemma logs_warned_bnd:
  assumes "logs (warned E rd fd) m w"
    and "\<And>a w'. m w = (Inr a, w') \<Longrightarrow> logs (warned E rd fd) (f a) w'"
  shows "logs (warned E rd fd) (bnd m f) w"
proof (rule logs_bnd)
  show "logs (warned E rd fd) m w" by fact
  show "\<And>a w'. m w = (Inr a, w') \<Longrightarrow> logs (warned E rd fd) (f a) w'" by (rule assms(2))
  show "\<And>t1 t2. warned E rd fd t1 \<Longrightarrow> warned E rd fd t2 \<Longrightarrow> warned E rd fd (t1 @ t2)"
    by (rule warned_append)
qed

lemma raised_simps [simp]:
  "raised E (Makedirs p) = None" "raised E (Print m) = None"
  "raised E (VideoToFrames a b c d) = None" "raised E (JsonLoad p) = None"
  "raised E (RunDetector a1 a2 a3 a4 a5 a6) = None"
  "raised E (WriteResults b1 b2 b3 b4 b5) = None"
  "raised E (Visualize c1 c2 c3 c4 c5) = None"
  "raised E (FramesToVideo d1 d2 d3 d4) = None"
  "raised E (Rmtree p) = rmtree_err E p" "raised E (Remove p) = remove_err E p"
  by (simp_all add: raised_def)

lemma warned_cleanup_rendered:
  "logs (warned E d fd) (pv_cleanup_rendered E options created d fs) w"
  by (auto simp: logs_def pv_cleanup_rendered_run warned_def
      dest: removal_attempt_failed split: option.splits)

lemma warned_cleanup_extracted:
  "logs (warned E rd d) (pv_cleanup_extracted E options created d fs) w"
  by (auto simp: logs_def pv_cleanup_extracted_run warned_def
      dest: removal_attempt_failed split: option.splits)

lemma warned_basic:
  "logs (warned E rd fd) (makedirs E' p) w"
  "logs (warned E rd fd) (visualize E' a b c d e) w"
  "logs (warned E rd fd) (rendering_rate Fs n) w"
  "logs (warned E rd fd) (print m) w"
  "logs (warned E rd fd) (frames_to_video E' fs r out cc) w"
  "logs (warned E rd fd) (ret x) w"
  by (rule logs_quiet, rule emits_rules, simp?)+

lemma warned_pv_render:
  "logs (warned E (case frame_rendering_folder options of Some r \<Rightarrow> r
          | None \<Rightarrow> path_join t (basename (input_video_file options) @ ''_detections'')) fd)
     (pv_render E options t json f Fs) w"
  unfolding pv_render_def Let_def
  by (auto intro!: logs_warned_bnd warned_basic warned_cleanup_rendered
      split: option.splits)

lemma warned_pv_render_resolved:
  "logs (warned E (pv_rendering_output_dir E options) fd)
     (pv_render E (fst (resolve_outputs options)) (pv_tempdir E) json f Fs) w"
  using warned_pv_render [where options = "fst (resolve_outputs options)" and t = "pv_tempdir E"
      and E = E and fd = fd and json = json and f = f and Fs = Fs and w = w]
  by (simp add: pv_rendering_output_dir_def cong: option.case_cong)

lemma warned_process_video:
  "logs (warned E (pv_rendering_output_dir E options) (pv_frame_output_folder E options w))
     (process_video E options) w"
  unfolding process_video_def Let_def case_prod_beta
  apply (rule logs_warned_bnd)
   apply (rule logs_quiet, rule emits_pv_workspace, simp)
  apply (clarsimp simp del: split_paired_All split del: if_split)
  apply (drule pv_workspace_result)
  apply (rule logs_warned_bnd)
   apply (rule logs_quiet, rule emits_extract_frames, simp)
  apply (clarsimp simp del: split_paired_All split del: if_split)
  apply (rule logs_warned_bnd)
   apply (rule logs_quiet, rule emits_pv_debug_cap)
  apply (rule logs_warned_bnd)
   apply (rule logs_quiet, rule emits_pv_detection; simp)
  apply (rule logs_warned_bnd)
   apply (cases "render_output_video options")
    apply (simp add: warned_pv_render_resolved)
   apply (simp add: warned_basic)
  apply (rule logs_warned_bnd)
   apply (cases "keep_extracted_frames options")
    apply (simp add: warned_basic)
   apply (simp add: warned_cleanup_extracted)
  apply (simp add: warned_basic)
  done


lemma resolve_outputs_threshold [simp]:
  "rendering_confidence_threshold (fst (resolve_outputs options))
     = rendering_confidence_threshold options"
  by (simp add: resolve_outputs_def Let_def)

lemma pv_detection_ok:
  assumes "(\<not> (reuse_results_if_available options \<and> files w json \<noteq> None)
        \<and> load_and_run_detector_batch E (model_file options) images
             (json_confidence_threshold options) (n_cores options) (\<not> verbose options)
             (class_mapping_filename options) = Inr res
        \<and> write_results_err E json = None
        \<and> result = Detected res
        \<and> fs' = (files w)(json \<mapsto> Json \<lparr>art_images = res, art_detector = model_file options,
               art_base = f, art_frame_rate = FrameRate Fs\<rparr>))
     \<or> (reuse_results_if_available options \<and> files w json = Some (Json a)
        \<and> result = Loaded a \<and> fs' = files w)"
  shows "\<exists>w3. pv_detection E options json f images Fs w = (Inr result, w3) \<and> files w3 = fs'"
  using assms
  by (auto simp: pv_detection_unfold bnd_def run_detector_def call_run
      write_results_to_file_def guarded_def emit_def print_run json_load_def)

lemma pv_render_ok:
  assumes "makedirs_err E rd = None"
    and "visualize_detector_output E (files w) json rd f
           (rendering_confidence_threshold options) False = Inr dff"
    and "frame_sample options \<noteq> Some 0"
    and "frames_to_video_err E dff (stitch_rate Fs (frame_sample options))
           (output_video_file options) (fourcc options) = None"
    and "rd = (case frame_rendering_folder options of Some r \<Rightarrow> r
          | None \<Rightarrow> path_join t (basename (input_video_file options) @ ''_detections''))"
  shows "fst (pv_render E options t json f Fs w) = Inr ()"
  using assms
  by (auto simp: pv_render_def Let_def bnd_def makedirs_ok visualize_def call_run
      rendering_rate_def stitch_rate_def print_run frames_to_video_def guarded_def emit_def
      pv_cleanup_rendered_run split: option.splits)

lemma process_video_returns_detection_result:
  assumes dirs: "\<forall>p\<in>set (pv_workspace_dirs E options w). makedirs_err E p = None"
    and ex: "video_to_frames E (input_video_file options) (pv_frame_output_folder E options w)
        (frame_sample options) (\<not> reuse_frames_if_available options) = Inr (frames, Fs)"
    and cap: "debug_max_frames options = Some k"
    and det: "(\<not> (reuse_results_if_available options
                \<and> files w (snd (resolve_outputs options)) \<noteq> None)
        \<and> load_and_run_detector_batch E (model_file options) (capped k frames)
             (json_confidence_threshold options) (n_cores options) (\<not> verbose options)
             (class_mapping_filename options) = Inr res
        \<and> write_results_err E (snd (resolve_outputs options)) = None
        \<and> result = Detected res
        \<and> fs' = (files w)(snd (resolve_outputs options) \<mapsto>
               Json \<lparr>art_images = res, art_detector = model_file options,
                     art_base = pv_frame_output_folder E options w,
                     art_frame_rate = FrameRate Fs\<rparr>))
     \<or> (reuse_results_if_available options
        \<and> files w (snd (resolve_outputs options)) = Some (Json a)
        \<and> result = Loaded a \<and> fs' = files w)"
    and rend: "render_output_video options \<longrightarrow>
        makedirs_err E (pv_rendering_output_dir E options) = None
        \<and> visualize_detector_output E fs' (snd (resolve_outputs options))
             (pv_rendering_output_dir E options) (pv_frame_output_folder E options w)
             (rendering_confidence_threshold options) False = Inr dff
        \<and> frame_sample options \<noteq> Some 0
        \<and> frames_to_video_err E dff (stitch_rate Fs (frame_sample options))
             (output_video_file (fst (resolve_outputs options))) (fourcc options) = None"
  shows "outcome (process_video E options) w = Inr result"
proof -
  let ?o = "fst (resolve_outputs options)"
  let ?json = "snd (resolve_outputs options)"
  let ?f = "pv_frame_output_folder E options w"
  from process_video_reached [OF dirs ex cap] obtain w2 where
    run: "process_video E options w =
       pv_from_detection E ?o ?json (pv_tempdir E) ?f (frame_folder options = None)
         frames (capped k frames) Fs w2"
    and f2: "files w2 = files w"
    by blast
  have "\<exists>w3. pv_detection E ?o ?json ?f (capped k frames) Fs w2 = (Inr result, w3)
      \<and> files w3 = fs'"
    by (rule pv_detection_ok [where res = res and a = a]) (use det f2 in simp)
  then obtain w3 where D: "pv_detection E ?o ?json ?f (capped k frames) Fs w2 = (Inr result, w3)"
    and f3: "files w3 = fs'"
    by blast
  let ?render = "if render_output_video ?o then pv_render E ?o (pv_tempdir E) ?json ?f Fs
     else ret ()"
  have "fst (?render w3) = Inr ()"
  proof (cases "render_output_video options")
    case True
    have "fst (pv_render E ?o (pv_tempdir E) ?json ?f Fs w3) = Inr ()"
      by (rule pv_render_ok [where rd = "pv_rendering_output_dir E options" and dff = dff])
         (use True rend f3 in \<open>simp_all add: pv_rendering_output_dir_def
            cong: option.case_cong\<close>)
    with True show ?thesis by simp
  next
    case False
    then show ?thesis by simp
  qed
  then obtain w4 where R: "?render w3 = (Inr (), w4)"
    by (cases "?render w3") simp
  let ?cleanup = "if \<not> keep_extracted_frames ?o
     then pv_cleanup_extracted E ?o (frame_folder options = None) ?f frames else ret ()"
  have C: "fst (?cleanup w4) = Inr ()"
    by (simp add: pv_cleanup_extracted_run)
  then obtain w5 where C': "?cleanup w4 = (Inr (), w5)"
    by (cases "?cleanup w4") simp
  have "pv_from_detection E ?o ?json (pv_tempdir E) ?f (frame_folder options = None)
         frames (capped k frames) Fs w2 = (Inr result, w5)"
    unfolding pv_from_detection_def
    by (simp only: bnd_Inr [of "pv_detection E ?o ?json ?f (capped k frames) Fs" w2, OF D]
        bnd_Inr [of ?render w3, OF R]
        bnd_Inr [of ?cleanup w4, OF C'] ret_apply)
  then show ?thesis by (simp add: outcome_def run)
qed


lemma process_video_reports_attribute_error:
  assumes nff: "frame_folder options = None"
    and nf: "\<not> force_extracted_frame_folder_deletion options"
    and nk: "\<not> keep_extracted_frames options"
    and ok: "outcome (process_video E options) w = Inr res"
  shows "suffix [Print (WarnRemovingExtracted (pv_frame_output_folder E options w)
             (AttributeError ''ouput_json_file''))]
           (trace_of (process_video E options) w)"
proof -
  let ?o = "fst (resolve_outputs options)"
  let ?json = "snd (resolve_outputs options)"
  let ?f = "pv_frame_output_folder E options w"
  obtain wf where run: "process_video E options w = (Inr res, wf)"
    using ok by (cases "process_video E options w") (simp add: outcome_def)
  from run obtain a w1 where W: "pv_workspace E ?o w = (Inr a, w1)"
    and R1: "(case a of (tempdir, frame_output_folder, frame_output_folder_created) \<Rightarrow>
      bnd (extract_frames E ?o frame_output_folder) (\<lambda>(frame_filenames, Fs).
      bnd (pv_debug_cap ?o frame_filenames) (\<lambda>image_file_names.
      bnd (pv_detection E ?o ?json frame_output_folder image_file_names Fs) (\<lambda>res.
      bnd (if render_output_video ?o
           then pv_render E ?o tempdir ?json frame_output_folder Fs
           else ret ()) (\<lambda>_.
      bnd (if \<not> keep_extracted_frames ?o
           then pv_cleanup_extracted E ?o frame_output_folder_created frame_output_folder
                  frame_filenames
           else ret ()) (\<lambda>_.
      ret res)))))) w1 = (Inr res, wf)"
    unfolding process_video_def Let_def case_prod_beta bnd_Inr_iff [of "pv_workspace E ?o"]
    by (auto simp: case_prod_beta)
  obtain t f c where a: "a = (t, f, c)" by (cases a)
  from pv_workspace_result [OF W [unfolded a]] nff
  have tfc: "t = pv_tempdir E" "f = ?f" "c = True" by simp_all
  from R1 [unfolded a prod.case tfc] obtain fs Fs' w2 where
    X: "extract_frames E ?o ?f w1 = (Inr (fs, Fs'), w2)"
    and R2: "bnd (pv_debug_cap ?o fs) (\<lambda>image_file_names.
      bnd (pv_detection E ?o ?json ?f image_file_names Fs') (\<lambda>res.
      bnd (if render_output_video ?o
           then pv_render E ?o (pv_tempdir E) ?json ?f Fs'
           else ret ()) (\<lambda>_.
      bnd (if \<not> keep_extracted_frames ?o
           then pv_cleanup_extracted E ?o True ?f fs
           else ret ()) (\<lambda>_.
      ret res)))) w2 = (Inr res, wf)"
    unfolding bnd_Inr_iff [of "extract_frames E ?o ?f"] by auto
  from R2 obtain imgs w3 where
    C: "pv_debug_cap ?o fs w2 = (Inr imgs, w3)"
    and R3: "bnd (pv_detection E ?o ?json ?f imgs Fs') (\<lambda>res.
      bnd (if render_output_video ?o
           then pv_render E ?o (pv_tempdir E) ?json ?f Fs'
           else ret ()) (\<lambda>_.
      bnd (if \<not> keep_extracted_frames ?o
           then pv_cleanup_extracted E ?o True ?f fs
           else ret ()) (\<lambda>_.
      ret res))) w3 = (Inr res, wf)"
    unfolding bnd_Inr_iff [of "pv_debug_cap ?o fs"] by auto
  from R3 obtain res' w4 where
    D: "pv_detection E ?o ?json ?f imgs Fs' w3 = (Inr res', w4)"
    and R4: "bnd (if render_output_video ?o
           then pv_render E ?o (pv_tempdir E) ?json ?f Fs'
           else ret ()) (\<lambda>_.
      bnd (if \<not> keep_extracted_frames ?o
           then pv_cleanup_extracted E ?o True ?f fs
           else ret ()) (\<lambda>_.
      ret res')) w4 = (Inr res, wf)"
    unfolding bnd_Inr_iff [of "pv_detection E ?o ?json ?f imgs Fs'"] by auto
  let ?render = "if render_output_video ?o
           then pv_render E ?o (pv_tempdir E) ?json ?f Fs' else ret ()"
  from R4 obtain u w5 where
    V: "?render w4 = (Inr u, w5)"
    and R5: "bnd (pv_cleanup_extracted E ?o True ?f fs) (\<lambda>_. ret res') w5 = (Inr res, wf)"
    unfolding bnd_Inr_iff [of ?render] using nk by auto
  from R5 have wf: "wf = snd (pv_cleanup_extracted E ?o True ?f fs w5)"
    by (auto simp: bnd_Inr_iff)
  have log: "events wf = events w5 @ [Print (WarnRemovingExtracted ?f
      (AttributeError ''ouput_json_file''))]"
    using nf by (simp add: wf pv_cleanup_extracted_run)
  have e1: "\<exists>tr. events w1 = events w @ tr"
    by (rule emits_result [OF emits_pv_workspace [of "\<lambda>_. True"] W]) simp
  have e2: "\<exists>tr. events w2 = events w1 @ tr"
    by (rule emits_result [OF emits_extract_frames [of "\<lambda>_. True"] X]) simp
  have e3: "\<exists>tr. events w3 = events w2 @ tr"
    by (rule emits_result [OF emits_pv_debug_cap [of "\<lambda>_. True"] C])
  have e4: "\<exists>tr. events w4 = events w3 @ tr"
    by (rule emits_result [OF emits_pv_detection [of "\<lambda>_. True"] D]) simp_all
  have "emits (\<lambda>_. True) ?render w4"
    by (auto intro!: emits_rules emits_pv_render)
  from emits_result [OF this V] have e5: "\<exists>tr. events w5 = events w4 @ tr" .
  from e1 e2 e3 e4 e5 log obtain pre where
    "events wf = events w @ pre @ [Print (WarnRemovingExtracted ?f
      (AttributeError ''ouput_json_file''))]"
    by auto
  then have "trace_of (process_video E options) w = pre @ [Print (WarnRemovingExtracted ?f
      (AttributeError ''ouput_json_file''))]"
    by (simp add: trace_of_def run)
  then show ?thesis by (simp add: suffix_def)
qed

lemma failing_delete_run_trace:
  "trace_of (process_video failing_delete_env sampled_options) start =
     [Makedirs ''/tmp/process_camera_trap_video'',
      Makedirs ''/tmp/process_camera_trap_video/u_a1'',
      Makedirs ''/data/frames'',
      VideoToFrames ''/v/cam.mp4'' ''/data/frames'' (Some 5) True,
      RunDetector ''MDV5A''
        [''/data/frames/frame0.jpg'', ''/data/frames/frame1.jpg'', ''/data/frames/frame2.jpg'']
        (Some (5 / 1000)) (Some 1) True None,
      WriteResults
        [(''/data/frames/frame0.jpg'', []), (''/data/frames/frame1.jpg'', []),
         (''/data/frames/frame2.jpg'', [])]
        ''/v/cam.mp4.json'' ''/data/frames'' ''MDV5A'' (FrameRate 30),
      Makedirs ''/tmp/process_camera_trap_video/cam.mp4_detections'',
      Visualize ''/v/cam.mp4.json'' ''/tmp/process_camera_trap_video/cam.mp4_detections''
        ''/data/frames'' None False,
      Print (RenderingVideo (Some ''/v/cam.mp4.detections.mp4'') 6 30),
      FramesToVideo
        [''/tmp/process_camera_trap_video/cam.mp4_detections/frame0.jpg'',
         ''/tmp/process_camera_trap_video/cam.mp4_detections/frame1.jpg'',
         ''/tmp/process_camera_trap_video/cam.mp4_detections/frame2.jpg'']
        6 (Some ''/v/cam.mp4.detections.mp4'') None,
      Rmtree ''/tmp/process_camera_trap_video/cam.mp4_detections'',
      Print (WarnDeletingRendered ''/tmp/process_camera_trap_video/cam.mp4_detections''
        (OSError ''PermissionError'')),
      Remove ''/data/frames/frame0.jpg'',
      Print (WarnRemovingExtracted ''/data/frames'' (OSError ''PermissionError''))]"
  by (simp add: run_defs failing_delete_env_def sampled_options_def supplied_options_def)

lemma created_run_outcome:
  "outcome (process_video failing_delete_env created_options) start =
     Inr (Detected
       [(''/tmp/process_camera_trap_video/u_a1/cam.mp4_frames_b2/frame0.jpg'', []),
        (''/tmp/process_camera_trap_video/u_a1/cam.mp4_frames_b2/frame1.jpg'', []),
        (''/tmp/process_camera_trap_video/u_a1/cam.mp4_frames_b2/frame2.jpg'', [])])"
  by (simp add: run_defs failing_delete_env_def created_options_def)


text \<open>
  C6.  Whatever the deletion calls \<^verbatim>\<open>shutil.rmtree\<close> and \<^verbatim>\<open>os.remove\<close> do,
  \<^verbatim>\<open>process_video\<close> has the same outcome.  When its fatal steps succeed (the directories
  are created, the extractor returns, the detector returns and its results are written, or the
  results are reloaded, and, with rendering enabled, the renderer and the assembler return) it
  returns the frame-level detection result, whether or not a deletion raises.  Every deletion
  call of the run that raised is reported in the log of the run by the warning of its cleanup.
  In a run that returns, having created its frame folder, with the force flag unset, the
  \<^verbatim>\<open>AttributeError\<close> of line 214 is reported by the warning of lines 221-222, the last
  event of the run.
\<close>

theorem cleanup_failures_never_change_outcome:
  "outcome (process_video (E\<lparr>rmtree_err := r, remove_err := q\<rparr>) options) w
     = outcome (process_video E options) w
   \<and> ((\<forall>p\<in>set (pv_workspace_dirs E options w). makedirs_err E p = None)
       \<and> video_to_frames E (input_video_file options) (pv_frame_output_folder E options w)
            (frame_sample options) (\<not> reuse_frames_if_available options) = Inr (frames, Fs)
       \<and> debug_max_frames options = Some k
       \<and> ((\<not> (reuse_results_if_available options
                \<and> files w (snd (resolve_outputs options)) \<noteq> None)
            \<and> load_and_run_detector_batch E (model_file options) (capped k frames)
                 (json_confidence_threshold options) (n_cores options) (\<not> verbose options)
                 (class_mapping_filename options) = Inr res
            \<and> write_results_err E (snd (resolve_outputs options)) = None
            \<and> result = Detected res
            \<and> fs' = (files w)(snd (resolve_outputs options) \<mapsto>
                   Json \<lparr>art_images = res, art_detector = model_file options,
                         art_base = pv_frame_output_folder E options w,
                         art_frame_rate = FrameRate Fs\<rparr>))
          \<or> (reuse_results_if_available options
            \<and> files w (snd (resolve_outputs options)) = Some (Json a)
            \<and> result = Loaded a \<and> fs' = files w))
       \<and> (render_output_video options \<longrightarrow>
            makedirs_err E (pv_rendering_output_dir E options) = None
            \<and> visualize_detector_output E fs' (snd (resolve_outputs options))
                 (pv_rendering_output_dir E options) (pv_frame_output_folder E options w)
                 (rendering_confidence_threshold options) False = Inr dff
            \<and> frame_sample options \<noteq> Some 0
            \<and> frames_to_video_err E dff (stitch_rate Fs (frame_sample options))
                 (output_video_file (fst (resolve_outputs options))) (fourcc options) = None)
      \<longrightarrow> outcome (process_video E options) w = Inr result)
   \<and> warned E (pv_rendering_output_dir E options) (pv_frame_output_folder E options w)
        (trace_of (process_video E options) w)
   \<and> (frame_folder options = None \<and> \<not> force_extracted_frame_folder_deletion options
       \<and> \<not> keep_extracted_frames options
       \<and> outcome (process_video E options) w = Inr res'
      \<longrightarrow> suffix [Print (WarnRemovingExtracted (pv_frame_output_folder E options w)
                    (AttributeError ''ouput_json_file''))]
            (trace_of (process_video E options) w))"
  (is "?A \<and> (?H2 \<longrightarrow> ?C2) \<and> ?W \<and> (?H4 \<longrightarrow> ?C4)")
proof -
  have 1: ?A
  proof -
    have "agree (process_video E options)
        (process_video (E\<lparr>rmtree_err := r, remove_err := q\<rparr>) options) w w"
      by (rule agree_process_video) simp
    then show ?thesis by (simp add: agree_def outcome_def)
  qed
  have 2: "?H2 \<longrightarrow> ?C2"
  proof (rule impI)
    assume h: ?H2
    show ?C2
      by (rule process_video_returns_detection_result
          [where frames = frames and Fs = Fs and k = k and res = res and fs' = fs' and a = a
             and dff = dff])
         (use h in blast)+
  qed
  have 3: ?W
    by (rule logs_trace [OF warned_process_video])
  have 4: "?H4 \<longrightarrow> ?C4"
  proof (rule impI)
    assume h: ?H4
    show ?C4
      by (rule process_video_reports_attribute_error [where res = res']) (use h in blast)+
  qed
  from 1 2 3 4 show ?thesis by blast
qed

theorem cleanup_failures_never_change_outcome_witness:
  "outcome (process_video failing_delete_env sampled_options) start
     = Inr (Detected
         [(''/data/frames/frame0.jpg'', []), (''/data/frames/frame1.jpg'', []),
          (''/data/frames/frame2.jpg'', [])])
   \<and> Rmtree ''/tmp/process_camera_trap_video/cam.mp4_detections''
       \<in> set (trace_of (process_video failing_delete_env sampled_options) start)
   \<and> raised failing_delete_env (Rmtree ''/tmp/process_camera_trap_video/cam.mp4_detections'')
       = Some (OSError ''PermissionError'')
   \<and> (Print (WarnDeletingRendered ''/tmp/process_camera_trap_video/cam.mp4_detections''
          (OSError ''PermissionError''))
        \<in> set (trace_of (process_video failing_delete_env sampled_options) start)
      \<or> Print (WarnRemovingExtracted ''/data/frames'' (OSError ''PermissionError''))
        \<in> set (trace_of (process_video failing_delete_env sampled_options) start))
   \<and> frame_folder created_options = None
   \<and> \<not> force_extracted_frame_folder_deletion created_options
   \<and> \<not> keep_extracted_frames created_options
   \<and> suffix [Print (WarnRemovingExtracted
               ''/tmp/process_camera_trap_video/u_a1/cam.mp4_frames_b2''
               (AttributeError ''ouput_json_file''))]
        (trace_of (process_video failing_delete_env created_options) start)"
proof -
  let ?E = failing_delete_env
  let ?rd = "''/tmp/process_camera_trap_video/cam.mp4_detections''"
  let ?frames = "[''/data/frames/frame0.jpg'', ''/data/frames/frame1.jpg'',
      ''/data/frames/frame2.jpg'']"
  let ?res = "[(''/data/frames/frame0.jpg'', []), (''/data/frames/frame1.jpg'', []),
          (''/data/frames/frame2.jpg'', [])] :: results"
  let ?fs' = "(files start)(''/v/cam.mp4.json'' \<mapsto>
       Json \<lparr>art_images = ?res, art_detector = ''MDV5A'', art_base = ''/data/frames'',
             art_frame_rate = FrameRate 30\<rparr>)"
  let ?dff = "[''/tmp/process_camera_trap_video/cam.mp4_detections/frame0.jpg'',
         ''/tmp/process_camera_trap_video/cam.mp4_detections/frame1.jpg'',
         ''/tmp/process_camera_trap_video/cam.mp4_detections/frame2.jpg'']"
  have folder: "pv_frame_output_folder ?E sampled_options start = ''/data/frames''"
    by (simp add: pv_frame_output_folder_def sampled_options_def supplied_options_def)
  have rd: "pv_rendering_output_dir ?E sampled_options = ?rd"
    by (simp add: pv_rendering_output_dir_def pv_tempdir_def sampled_options_def
        supplied_options_def default_options_def failing_delete_env_def demo_env_def
        path_join_def basename_def startswith_def endswith_def suffix_to_prefix)
  have json: "snd (resolve_outputs sampled_options) = ''/v/cam.mp4.json''"
    "output_video_file (fst (resolve_outputs sampled_options))
       = Some ''/v/cam.mp4.detections.mp4''"
    by (simp_all add: resolve_outputs_def Let_def sampled_options_def supplied_options_def
        default_options_def)
  have opts: "input_video_file sampled_options = ''/v/cam.mp4''"
    "frame_sample sampled_options = Some 5" "\<not> reuse_frames_if_available sampled_options"
    "debug_max_frames sampled_options = Some (- 1)"
    "\<not> reuse_results_if_available sampled_options" "model_file sampled_options = ''MDV5A''"
    "json_confidence_threshold sampled_options = Some (5 / 1000)"
    "n_cores sampled_options = Some 1" "\<not> verbose sampled_options"
    "class_mapping_filename sampled_options = None" "render_output_video sampled_options"
    "rendering_confidence_threshold sampled_options = None" "fourcc sampled_options = None"
    by (simp_all add: sampled_options_def supplied_options_def default_options_def)
  have h1: "\<forall>p\<in>set (pv_workspace_dirs ?E sampled_options start). makedirs_err ?E p = None"
    by (simp add: failing_delete_env_def demo_env_def)
  have h2: "video_to_frames ?E ''/v/cam.mp4'' ''/data/frames'' (Some 5) True
      = Inr (?frames, 30)"
    by (simp add: failing_delete_env_def demo_env_def path_join_def startswith_def
        endswith_def suffix_to_prefix)
  have h3: "load_and_run_detector_batch ?E ''MDV5A'' (capped (- 1) ?frames)
      (Some (5 / 1000)) (Some 1) True None = Inr ?res"
    by (simp add: failing_delete_env_def demo_env_def capped_def spec_run_batch_def)
  have h4: "write_results_err ?E ''/v/cam.mp4.json'' = None"
    "makedirs_err ?E ?rd = None"
    by (simp_all add: failing_delete_env_def demo_env_def)
  have h5: "visualize_detector_output ?E ?fs' ''/v/cam.mp4.json'' ?rd ''/data/frames'' None False
      = Inr ?dff"
    by (simp add: failing_delete_env_def demo_env_def path_join_def startswith_def
        endswith_def suffix_to_prefix)
  have h6: "frames_to_video_err ?E ?dff (stitch_rate 30 (Some 5))
      (Some ''/v/cam.mp4.detections.mp4'') None = None"
    by (simp add: failing_delete_env_def demo_env_def)
  note T = cleanup_failures_never_change_outcome
    [where E = ?E and options = sampled_options and w = start and frames = ?frames
       and Fs = 30 and k = "- 1" and res = ?res and result = "Detected ?res" and fs' = ?fs'
       and dff = ?dff]
  have a: "outcome (process_video ?E sampled_options) start = Inr (Detected ?res)"
    by (rule conjunct1 [OF conjunct2 [OF T], THEN mp])
       (use h3 in \<open>simp add: folder rd json opts h1 h2 h4 h5 h6\<close>)
  have b: "Rmtree ?rd \<in> set (trace_of (process_video ?E sampled_options) start)"
    by (simp add: failing_delete_run_trace)
  have c: "raised ?E (Rmtree ?rd) = Some (OSError ''PermissionError'')"
    by (simp add: failing_delete_env_def)
  from T have "warned ?E ?rd ''/data/frames''
      (trace_of (process_video ?E sampled_options) start)"
    unfolding folder rd by blast
  with b c have d: "Print (WarnDeletingRendered ?rd (OSError ''PermissionError''))
        \<in> set (trace_of (process_video ?E sampled_options) start)
      \<or> Print (WarnRemovingExtracted ''/data/frames'' (OSError ''PermissionError''))
        \<in> set (trace_of (process_video ?E sampled_options) start)"
    unfolding warned_def by (auto dest!: bspec)
  have e: "frame_folder created_options = None"
    "\<not> force_extracted_frame_folder_deletion created_options"
    "\<not> keep_extracted_frames created_options"
    by (simp_all add: created_options_def default_options_def)
  have cf: "pv_frame_output_folder ?E created_options start
      = ''/tmp/process_camera_trap_video/u_a1/cam.mp4_frames_b2''"
    by (simp add: pv_frame_output_folder_def pv_user_tempdir_def pv_tempdir_def
        created_options_def default_options_def failing_delete_env_def demo_env_def start_def
        path_join_def basename_def startswith_def endswith_def suffix_to_prefix)
  from cleanup_failures_never_change_outcome
    [where E = ?E and options = created_options and w = start] e created_run_outcome
  have f: "suffix [Print (WarnRemovingExtracted
               ''/tmp/process_camera_trap_video/u_a1/cam.mp4_frames_b2''
               (AttributeError ''ouput_json_file''))]
        (trace_of (process_video ?E created_options) start)"
    unfolding cf by blast
  from a b c d e f show ?thesis by blast
qed

section \<open>Reuse of detection results (C2)\<close>

text \<open>
  C2.  In a run of \<^verbatim>\<open>process_video\<close> that reaches the detection stage (the working
  directories could be created, the extractor returned the frames and the frame rate, the debug
  cap is a number), the detector is run if and only if it is not the case that
  \<^verbatim>\<open>reuse_results_if_available\<close> is set and the output JSON file exists; when it is run, it
  is run on the (capped) frame list, and when it returns, \<^verbatim>\<open>write_results_to_file\<close> is
  called on its results with the frame rate of the video as metadata.  The same holds for a run
  of \<^verbatim>\<open>process_video_folder\<close> that reaches the detection stage (validation passed, at least
  one frame extracted), with the frame-level JSON file and the list of frame rates.
\<close>

theorem detection_skipped_iff_reuse:
  "((\<forall>p\<in>set (pv_workspace_dirs E options w). makedirs_err E p = None)
     \<and> video_to_frames E (input_video_file options) (pv_frame_output_folder E options w)
          (frame_sample options) (\<not> reuse_frames_if_available options) = Inr (frames, Fs)
     \<and> debug_max_frames options = Some k
    \<longrightarrow>
      (list_ex is_detector_run (trace_of (process_video E options) w)
           \<longleftrightarrow> \<not> (reuse_results_if_available options
                   \<and> files w (snd (resolve_outputs options)) \<noteq> None))
      \<and> (\<not> (reuse_results_if_available options
            \<and> files w (snd (resolve_outputs options)) \<noteq> None) \<longrightarrow>
         RunDetector (model_file options) (capped k frames) (json_confidence_threshold options)
             (n_cores options) (\<not> verbose options) (class_mapping_filename options)
           \<in> set (trace_of (process_video E options) w)
         \<and> (\<forall>res. load_and_run_detector_batch E (model_file options) (capped k frames)
               (json_confidence_threshold options) (n_cores options) (\<not> verbose options)
               (class_mapping_filename options) = Inr res
              \<longrightarrow> WriteResults res (snd (resolve_outputs options))
                    (pv_frame_output_folder E options w) (model_file options) (FrameRate Fs)
                    \<in> set (trace_of (process_video E options) w))))
   \<and> (isdir E' (input_video_file options')
       \<and> output_json_file options' = Some video_json
       \<and> endswith video_json ''.json''
       \<and> (\<forall>p\<in>set (pvf_workspace_dirs E' options' w' video_json). makedirs_err E' p = None)
       \<and> video_folder_to_frames E' (input_video_file options')
            (pvf_frame_output_folder E' options' w') (recursive options')
            (\<not> reuse_frames_if_available options') (n_cores options') (frame_sample options')
            (verbose options') = Inr (frame_filenames, Fss, video_filenames)
       \<and> concat frame_filenames \<noteq> []
    \<longrightarrow>
      (list_ex is_detector_run (trace_of (process_video_folder E' options') w')
           \<longleftrightarrow> \<not> (reuse_results_if_available options'
                   \<and> files w' (pvf_frames_json video_json) \<noteq> None))
      \<and> (\<not> (reuse_results_if_available options'
            \<and> files w' (pvf_frames_json video_json) \<noteq> None) \<longrightarrow>
         RunDetector (model_file options')
             (pvf_image_file_names options' (concat frame_filenames))
             (json_confidence_threshold options')
             (n_cores options') (\<not> verbose options') (class_mapping_filename options')
           \<in> set (trace_of (process_video_folder E' options') w')
         \<and> (\<forall>res. load_and_run_detector_batch E' (model_file options')
               (pvf_image_file_names options' (concat frame_filenames))
               (json_confidence_threshold options') (n_cores options') (\<not> verbose options')
               (class_mapping_filename options') = Inr res
              \<longrightarrow> WriteResults res (pvf_frames_json video_json)
                    (pvf_frame_output_folder E' options' w') (model_file options')
                    (FrameRates Fss)
                    \<in> set (trace_of (process_video_folder E' options') w'))))"
  (is "(?H1 \<longrightarrow> ?C1) \<and> (?H2 \<longrightarrow> ?C2)")
proof -
  have A: "?H1 \<longrightarrow> ?C1"
  proof (rule impI)
    assume ?H1
    then have h: "\<forall>p\<in>set (pv_workspace_dirs E options w). makedirs_err E p = None"
      "video_to_frames E (input_video_file options) (pv_frame_output_folder E options w)
          (frame_sample options) (\<not> reuse_frames_if_available options) = Inr (frames, Fs)"
      "debug_max_frames options = Some k"
      by blast+
    show ?C1 by (rule pv_detection_skipped_iff_reuse [OF h])
  qed
  have B: "?H2 \<longrightarrow> ?C2"
  proof (rule impI)
    assume ?H2
    then have h: "isdir E' (input_video_file options')"
      "output_json_file options' = Some video_json"
      "endswith video_json ''.json''"
      "\<forall>p\<in>set (pvf_workspace_dirs E' options' w' video_json). makedirs_err E' p = None"
      "video_folder_to_frames E' (input_video_file options')
            (pvf_frame_output_folder E' options' w') (recursive options')
            (\<not> reuse_frames_if_available options') (n_cores options') (frame_sample options')
            (verbose options') = Inr (frame_filenames, Fss, video_filenames)"
      "concat frame_filenames \<noteq> []"
      by blast+
    show ?C2 by (rule pvf_detection_skipped_iff_reuse [OF h])
  qed
  from A B show ?thesis by (rule conjI)
qed


theorem detection_skipped_iff_reuse_witness:
  "list_ex is_detector_run (trace_of (process_video demo_env supplied_options) start)
   \<and> WriteResults
        (spec_run_batch [''/data/frames/frame0.jpg'', ''/data/frames/frame1.jpg'',
           ''/data/frames/frame2.jpg''])
        ''/v/cam.mp4.json'' ''/data/frames'' ''MDV5A'' (FrameRate 30)
       \<in> set (trace_of (process_video demo_env supplied_options) start)
   \<and> \<not> list_ex is_detector_run (trace_of (process_video demo_env reuse_options) cached_world)
   \<and> list_ex is_detector_run (trace_of (process_video_folder folder_env folder_options) start)
   \<and> WriteResults
        (spec_run_batch [''/data/frames/a.mp4/frame0.jpg'', ''/data/frames/a.mp4/frame1.jpg'',
           ''/data/frames/b.mp4/frame0.jpg''])
        (pvf_frames_json ''/out/results.json'') ''/data/frames'' ''MDV5A'' (FrameRates [30, 25])
       \<in> set (trace_of (process_video_folder folder_env folder_options) start)"
proof -
  let ?frames = "[''/data/frames/frame0.jpg'', ''/data/frames/frame1.jpg'',
           ''/data/frames/frame2.jpg'']"
  let ?ffs = "[[''/data/frames/a.mp4/frame0.jpg'', ''/data/frames/a.mp4/frame1.jpg''],
              [''/data/frames/b.mp4/frame0.jpg'']]"
  have folder [simp]: "pv_frame_output_folder demo_env supplied_options w = ''/data/frames''"
    "pv_frame_output_folder demo_env reuse_options w = ''/data/frames''"
    "pvf_frame_output_folder folder_env folder_options w = ''/data/frames''" for w
    by (simp_all add: pv_frame_output_folder_def pvf_frame_output_folder_def
        supplied_options_def reuse_options_def folder_options_def)
  have json [simp]: "snd (resolve_outputs supplied_options) = ''/v/cam.mp4.json''"
    "snd (resolve_outputs reuse_options) = ''/v/cam.mp4.json''"
    by (simp_all add: resolve_outputs_def supplied_options_def reuse_options_def
        default_options_def Let_def)
  have H1: "(\<forall>p\<in>set (pv_workspace_dirs demo_env supplied_options start).
        makedirs_err demo_env p = None)
     \<and> video_to_frames demo_env (input_video_file supplied_options)
          (pv_frame_output_folder demo_env supplied_options start)
          (frame_sample supplied_options) (\<not> reuse_frames_if_available supplied_options)
        = Inr (?frames, 30)
     \<and> debug_max_frames supplied_options = Some (- 1)"
    unfolding folder
    by (simp add: demo_env_def supplied_options_def default_options_def path_join_def
        startswith_def endswith_def suffix_to_prefix)
  have H1': "(\<forall>p\<in>set (pv_workspace_dirs demo_env reuse_options cached_world).
        makedirs_err demo_env p = None)
     \<and> video_to_frames demo_env (input_video_file reuse_options)
          (pv_frame_output_folder demo_env reuse_options cached_world)
          (frame_sample reuse_options) (\<not> reuse_frames_if_available reuse_options)
        = Inr (?frames, 30)
     \<and> debug_max_frames reuse_options = Some (- 1)"
    unfolding folder
    by (simp add: demo_env_def reuse_options_def supplied_options_def default_options_def
        path_join_def startswith_def endswith_def suffix_to_prefix)
  have H2: "isdir folder_env (input_video_file folder_options)
       \<and> output_json_file folder_options = Some ''/out/results.json''
       \<and> endswith ''/out/results.json'' ''.json''
       \<and> (\<forall>p\<in>set (pvf_workspace_dirs folder_env folder_options start ''/out/results.json'').
            makedirs_err folder_env p = None)
       \<and> video_folder_to_frames folder_env (input_video_file folder_options)
            (pvf_frame_output_folder folder_env folder_options start)
            (recursive folder_options)
            (\<not> reuse_frames_if_available folder_options) (n_cores folder_options)
            (frame_sample folder_options)
            (verbose folder_options) = Inr (?ffs, [30, 25], [''/in/a.mp4'', ''/in/b.mp4''])
       \<and> concat ?ffs \<noteq> []"
    unfolding folder
    by (simp add: folder_env_def demo_env_def folder_options_def default_options_def
        endswith_def suffix_to_prefix)
  note T = detection_skipped_iff_reuse
    [where E = demo_env and options = supplied_options and w = start and frames = ?frames
       and Fs = 30 and k = "- 1" and E' = folder_env and options' = folder_options
       and w' = start and video_json = "''/out/results.json''" and frame_filenames = ?ffs
       and Fss = "[30, 25]" and video_filenames = "[''/in/a.mp4'', ''/in/b.mp4'']"]
  note T' = detection_skipped_iff_reuse
    [where E = demo_env and options = reuse_options and w = cached_world and frames = ?frames
       and Fs = 30 and k = "- 1"]
  have nr: "\<not> reuse_results_if_available supplied_options"
    "\<not> reuse_results_if_available folder_options"
    by (simp_all add: supplied_options_def folder_options_def default_options_def)
  have r: "reuse_results_if_available reuse_options
      \<and> files cached_world (snd (resolve_outputs reuse_options)) \<noteq> None"
    unfolding json by (simp add: reuse_options_def cached_world_def)
  have d1: "load_and_run_detector_batch demo_env (model_file supplied_options)
      (capped (- 1) ?frames) (json_confidence_threshold supplied_options)
      (n_cores supplied_options) (\<not> verbose supplied_options)
      (class_mapping_filename supplied_options) = Inr (spec_run_batch ?frames)"
    by (simp add: demo_env_def capped_def)
  have d2: "load_and_run_detector_batch folder_env (model_file folder_options)
      (pvf_image_file_names folder_options (concat ?ffs))
      (json_confidence_threshold folder_options)
      (n_cores folder_options) (\<not> verbose folder_options)
      (class_mapping_filename folder_options) = Inr (spec_run_batch (concat ?ffs))"
    by (simp add: folder_env_def demo_env_def capped_def pvf_image_file_names_def
        folder_options_def default_options_def)
  have m: "model_file supplied_options = ''MDV5A''" "model_file folder_options = ''MDV5A''"
    by (simp_all add: supplied_options_def folder_options_def default_options_def)
  from T H1 nr have 1:
    "list_ex is_detector_run (trace_of (process_video demo_env supplied_options) start)"
    by blast
  from T H1 nr d1 have "WriteResults (spec_run_batch ?frames)
        (snd (resolve_outputs supplied_options))
        (pv_frame_output_folder demo_env supplied_options start)
        (model_file supplied_options) (FrameRate 30)
       \<in> set (trace_of (process_video demo_env supplied_options) start)"
    by blast
  then have 2: "WriteResults (spec_run_batch ?frames) ''/v/cam.mp4.json'' ''/data/frames''
        ''MDV5A'' (FrameRate 30)
       \<in> set (trace_of (process_video demo_env supplied_options) start)"
    by (simp add: m)
  from T' H1' r have 3:
    "\<not> list_ex is_detector_run (trace_of (process_video demo_env reuse_options) cached_world)"
    by blast
  from T H2 nr have 4:
    "list_ex is_detector_run (trace_of (process_video_folder folder_env folder_options) start)"
    by blast
  from T H2 nr d2 have "WriteResults (spec_run_batch (concat ?ffs))
        (pvf_frames_json ''/out/results.json'')
        (pvf_frame_output_folder folder_env folder_options start)
        (model_file folder_options) (FrameRates [30, 25])
       \<in> set (trace_of (process_video_folder folder_env folder_options) start)"
    by blast
  then have 5: "WriteResults
        (spec_run_batch [''/data/frames/a.mp4/frame0.jpg'', ''/data/frames/a.mp4/frame1.jpg'',
           ''/data/frames/b.mp4/frame0.jpg''])
        (pvf_frames_json ''/out/results.json'') ''/data/frames'' ''MDV5A'' (FrameRates [30, 25])
       \<in> set (trace_of (process_video_folder folder_env folder_options) start)"
    by (simp add: m)
  from 1 2 3 4 5 show ?thesis by blast
qed

section \<open>A folder without frames: concrete runs (C9)\<close>

theorem folder_without_frames_returns_witness:
  "outcome (process_video_folder demo_env folder_options) start = Inr ()
   \<and> last (trace_of (process_video_folder demo_env folder_options) start)
       = Print (NoVideosFound ''/in'')
   \<and> outcome (process_video_folder codec_env folder_options) start = Inr ()
   \<and> last (trace_of (process_video_folder codec_env folder_options) start)
       = Print (NoFramesExtracted ''/in'')"
proof -
  have f [simp]: "pvf_frame_output_folder E folder_options w = ''/data/frames''" for E w
    by (simp add: pvf_frame_output_folder_def folder_options_def)
  have a: "isdir demo_env (input_video_file folder_options)"
    "isdir codec_env (input_video_file folder_options)"
    by (simp_all add: demo_env_def codec_env_def)
  have b: "output_json_file folder_options = Some ''/out/results.json''"
    by (simp add: folder_options_def)
  have c: "endswith ''/out/results.json'' ''.json''"
    by (simp add: endswith_def suffix_to_prefix)
  have d: "\<forall>p\<in>set (pvf_workspace_dirs demo_env folder_options start ''/out/results.json'').
            makedirs_err demo_env p = None"
    "\<forall>p\<in>set (pvf_workspace_dirs codec_env folder_options start ''/out/results.json'').
            makedirs_err codec_env p = None"
    by (simp_all add: demo_env_def codec_env_def)
  have e1: "video_folder_to_frames demo_env (input_video_file folder_options)
        (pvf_frame_output_folder demo_env folder_options start) (recursive folder_options)
        (\<not> reuse_frames_if_available folder_options) (n_cores folder_options)
        (frame_sample folder_options) (verbose folder_options) = Inr ([], [], [])"
    by (simp add: demo_env_def)
  have e2: "video_folder_to_frames codec_env (input_video_file folder_options)
        (pvf_frame_output_folder codec_env folder_options start) (recursive folder_options)
        (\<not> reuse_frames_if_available folder_options) (n_cores folder_options)
        (frame_sample folder_options) (verbose folder_options)
        = Inr ([[]], [0], [''/in/a.mkv''])"
    by (simp add: codec_env_def)
  have i: "input_video_file folder_options = ''/in''"
    by (simp add: folder_options_def)
  from folder_without_frames_returns [OF a(1) b c d(1) e1]
  have 1: "outcome (process_video_folder demo_env folder_options) start = Inr ()"
    and 2: "last (trace_of (process_video_folder demo_env folder_options) start)
       = Print (NoVideosFound ''/in'')"
    by (simp_all add: i)
  from folder_without_frames_returns [OF a(2) b c d(2) e2]
  have 3: "outcome (process_video_folder codec_env folder_options) start = Inr ()"
    and 4: "last (trace_of (process_video_folder codec_env folder_options) start)
       = Print (NoFramesExtracted ''/in'')"
    by (simp_all add: i)
  from 1 2 3 4 show ?thesis by blast
qed

section \<open>Evaluating the worker\<close>

lemmas worker_defs = process_single_video_def global_name_def list_index_def list_get_def
  rendering_rate_def video_frame_output_folder_of_def video_frame_files_of_def py_assert_def
  dirname_def

section \<open>Attribution of rendered frames by prefix match (C4)\<close>

text \<open>
  C4.  The prefix match of lines 372-374 attributes the rendered frame of the video
  \<^verbatim>\<open>a.mp4_copy.mp4\<close> both to that video and to the video \<^verbatim>\<open>a.mp4\<close>, whose rendered-frame
  folder path is a prefix of the other's as a string; the worker of \<^verbatim>\<open>a.mp4\<close> stitches the
  frames of both videos.
\<close>

theorem prefix_match_attributes_frame_twice:
  "''/in/a.mp4'' \<noteq> ''/in/a.mp4_copy.mp4''
   \<and> video_frame_output_folder_of demo_env folder_options ''/render'' ''/in/a.mp4''
       = ''/render/a.mp4''
   \<and> video_frame_output_folder_of demo_env folder_options ''/render'' ''/in/a.mp4_copy.mp4''
       = ''/render/a.mp4_copy.mp4''
   \<and> video_frame_files_of ''/render/a.mp4''
         [''/render/a.mp4/frame0.jpg'', ''/render/a.mp4_copy.mp4/frame0.jpg'']
       = [''/render/a.mp4/frame0.jpg'', ''/render/a.mp4_copy.mp4/frame0.jpg'']
   \<and> video_frame_files_of ''/render/a.mp4_copy.mp4''
         [''/render/a.mp4/frame0.jpg'', ''/render/a.mp4_copy.mp4/frame0.jpg'']
       = [''/render/a.mp4_copy.mp4/frame0.jpg'']
   \<and> FramesToVideo [''/render/a.mp4/frame0.jpg'', ''/render/a.mp4_copy.mp4/frame0.jpg'']
         6 (Some ''/out/a.mp4'') None
       \<in> set (trace_of (process_single_video demo_env sibling_globals ''/in/a.mp4''
            folder_options ''/render''
            [''/render/a.mp4/frame0.jpg'', ''/render/a.mp4_copy.mp4/frame0.jpg'']
            False ''/out'' [30, 25] (Some 5)) start)"
  by (simp add: run_defs worker_defs sibling_globals_def folder_globals_def folder_options_def)

section \<open>The folder path never reaches the stitching code\<close>

lemma process_video_folder_never_stitches:
  "emits (\<lambda>ev. \<not> is_stitch ev) (process_video_folder E options) w"
  unfolding process_video_folder_def Let_def
  by (auto intro!: emits_rules emits_pvf_detection_cond emits_aggregate_results emits_pvf_render
      split: option.splits prod.splits)

lemma worker_name_error:
  "process_single_video E module_globals video_file options dir dff ofi ovf Fs sample w
     = (Inl (NameError ''video_filenames''), w)"
  by (simp add: process_single_video_def module_globals_def global_name_def bnd_def)

lemma module_load_fails:
  "module_level_tail E module_globals w = (Inl (NameError ''options''), w)"
  by (simp add: module_level_tail_def module_globals_def global_name_def bnd_def)

lemma frames_json_eval:
  "str_replace ''.json'' ''.frames.json'' ''/out/results.json'' = ''/out/results.frames.json''"
  by (simp add: str_replace.simps)

lemmas folder_defs = process_video_folder_def pvf_detection_def aggregate_results_def
  pvf_render_def py_assert_def frames_json_eval dirname_def folder_env_def folder_options_def

lemma folder_run_trace:
  "trace_of (process_video_folder failing_stitch_env folder_options) start =
     [Makedirs ''/out'', Makedirs ''/data/frames'', Print ExtractingFrames,
      VideoFolderToFrames ''/in'' ''/data/frames'' False True (Some 1) (Some 5) False,
      Print RunningMegaDetector,
      RunDetector ''MDV5A''
        [''/data/frames/a.mp4/frame0.jpg'', ''/data/frames/a.mp4/frame1.jpg'',
         ''/data/frames/b.mp4/frame0.jpg''] (Some (5 / 1000)) (Some 1) True None,
      WriteResults
        [(''/data/frames/a.mp4/frame0.jpg'', []), (''/data/frames/a.mp4/frame1.jpg'', []),
         (''/data/frames/b.mp4/frame0.jpg'', [])]
        ''/out/results.frames.json'' ''/data/frames'' ''MDV5A'' (FrameRates [30, 25]),
      Print ConvertingResults,
      FrameToVideoResults ''/out/results.frames.json'' ''/out/results.json'',
      Makedirs ''/render'',
      Visualize ''/out/results.frames.json'' ''/render'' ''/data/frames'' None True,
      Makedirs ''/out'']"
  by (simp add: run_defs folder_defs failing_stitch_env_def)

lemma folder_run_outcome:
  "outcome (process_video_folder failing_stitch_env folder_options) start = Inr ()"
  by (simp add: run_defs folder_defs failing_stitch_env_def)


section \<open>The frame rate of the stitched video (C8)\<close>

lemma sampled_run_stitches:
  "FramesToVideo
     [''/tmp/process_camera_trap_video/cam.mp4_detections/frame0.jpg'',
      ''/tmp/process_camera_trap_video/cam.mp4_detections/frame1.jpg'',
      ''/tmp/process_camera_trap_video/cam.mp4_detections/frame2.jpg'']
     6 (Some ''/v/cam.mp4.detections.mp4'') None
   \<in> set (trace_of (process_video demo_env sampled_options) start)"
  by (simp add: run_defs sampled_options_def supplied_options_def)

lemma emits_process_video_rate:
  assumes ex: "video_to_frames E (input_video_file options) (pv_frame_output_folder E options w)
        (frame_sample options) (\<not> reuse_frames_if_available options) = Inr (frames, Fs)"
  shows "emits (\<lambda>ev. \<forall>fs r out c. ev = FramesToVideo fs r out c
            \<longrightarrow> r = stitch_rate Fs (frame_sample options))
          (process_video E options) w"
  unfolding process_video_def Let_def case_prod_beta
  apply (rule emits_bnd)
   apply (rule emits_pv_workspace, simp)
  apply (clarsimp simp del: split_paired_All split del: if_split)
  apply (drule pv_workspace_result)
  apply (rule emits_bnd)
   apply (rule emits_extract_frames, simp)
  apply (clarsimp simp del: split_paired_All split del: if_split)
  apply (drule extract_frames_result)
  apply (simp add: ex split del: if_split)
  apply (rule emits_bnd)
   apply (rule emits_pv_debug_cap)
  apply (rule emits_bnd)
   apply (rule emits_pv_detection; simp)
  apply (rule emits_bnd)
   apply (auto intro!: emits_rules emits_pv_render emits_pv_cleanup_extracted)
  done

text \<open>
  C8.  In the single-video path every call of the assembler \<^verbatim>\<open>frames_to_video\<close> is made
  with the frame rate the extractor returned, divided by \<^verbatim>\<open>frame_sample\<close> when a stride is
  set.  In the folder path no call of the assembler is made at all: \<^verbatim>\<open>process_video_folder\<close>
  ends at line 356, and the worker \<^verbatim>\<open>process_single_video\<close> of line 360, which computes the
  rate of each video, stands at module level, where its first statement reads the unbound name
  \<^verbatim>\<open>video_filenames\<close>.
\<close>

theorem stitching_rate_single_video_only:
  "(video_to_frames E (input_video_file options) (pv_frame_output_folder E options w)
        (frame_sample options) (\<not> reuse_frames_if_available options) = Inr (frames, Fs)
     \<and> FramesToVideo fs r out c \<in> set (trace_of (process_video E options) w)
    \<longrightarrow> r = stitch_rate Fs (frame_sample options))
   \<and> (\<forall>ev \<in> set (trace_of (process_video_folder E' options') w'). \<not> is_stitch ev)
   \<and> process_single_video E' module_globals video_file options' dir dff ofi ovf Fss sample w'
       = (Inl (NameError ''video_filenames''), w')"
  (is "(?H1 \<longrightarrow> ?C1) \<and> ?B \<and> ?N")
proof -
  have A: "?H1 \<longrightarrow> ?C1"
  proof (rule impI)
    assume h: ?H1
    then have "emits (\<lambda>ev. \<forall>fs r out c. ev = FramesToVideo fs r out c
            \<longrightarrow> r = stitch_rate Fs (frame_sample options)) (process_video E options) w"
      by (intro emits_process_video_rate) blast
    then have "list_all (\<lambda>ev. \<forall>fs r out c. ev = FramesToVideo fs r out c
            \<longrightarrow> r = stitch_rate Fs (frame_sample options))
        (trace_of (process_video E options) w)"
      by (rule emits_trace)
    with h show ?C1 by (auto simp: list_all_iff)
  qed
  have "list_all (\<lambda>ev. \<not> is_stitch ev) (trace_of (process_video_folder E' options') w')"
    by (rule emits_trace [OF process_video_folder_never_stitches])
  then have B: ?B by (simp add: list_all_iff)
  have N: ?N by (rule worker_name_error)
  from A B N show ?thesis by blast
qed

theorem stitching_rate_single_video_only_witness:
  "FramesToVideo
     [''/tmp/process_camera_trap_video/cam.mp4_detections/frame0.jpg'',
      ''/tmp/process_camera_trap_video/cam.mp4_detections/frame1.jpg'',
      ''/tmp/process_camera_trap_video/cam.mp4_detections/frame2.jpg'']
     6 (Some ''/v/cam.mp4.detections.mp4'') None
     \<in> set (trace_of (process_video demo_env sampled_options) start)
   \<and> (6 :: real) = stitch_rate 30 (frame_sample sampled_options)
   \<and> render_output_video folder_options
   \<and> Visualize ''/out/results.frames.json'' ''/render'' ''/data/frames'' None True
     \<in> set (trace_of (process_video_folder failing_stitch_env folder_options) start)
   \<and> \<not> list_ex is_stitch (trace_of (process_video_folder failing_stitch_env folder_options) start)"
proof -
  have ex: "video_to_frames demo_env (input_video_file sampled_options)
        (pv_frame_output_folder demo_env sampled_options start)
        (frame_sample sampled_options) (\<not> reuse_frames_if_available sampled_options)
      = Inr ([''/data/frames/frame0.jpg'', ''/data/frames/frame1.jpg'',
              ''/data/frames/frame2.jpg''], 30)"
    by (simp add: demo_env_def sampled_options_def supplied_options_def default_options_def
        pv_frame_output_folder_def path_join_def startswith_def endswith_def suffix_to_prefix)
  note T = stitching_rate_single_video_only
    [where E = demo_env and options = sampled_options and w = start and Fs = 30
       and frames = "[''/data/frames/frame0.jpg'', ''/data/frames/frame1.jpg'',
              ''/data/frames/frame2.jpg'']"
       and r = 6 and E' = failing_stitch_env and options' = folder_options and w' = start]
  from T ex sampled_run_stitches
  have 1: "(6 :: real) = stitch_rate 30 (frame_sample sampled_options)"
    by blast
  from T have 2: "\<not> list_ex is_stitch
      (trace_of (process_video_folder failing_stitch_env folder_options) start)"
    unfolding list_ex_iff by blast
  have 3: "render_output_video folder_options"
    by (simp add: folder_options_def)
  have 4: "Visualize ''/out/results.frames.json'' ''/render'' ''/data/frames'' None True
     \<in> set (trace_of (process_video_folder failing_stitch_env folder_options) start)"
    by (simp add: folder_run_trace)
  from 1 2 3 4 sampled_run_stitches show ?thesis by blast
qed

section \<open>Stitching failures in the worker pool (C3)\<close>

text \<open>
  C3.  A run of \<^verbatim>\<open>process_video_folder\<close> with rendering enabled, on a folder of two videos
  the second of which the assembler would fail on: the function renders the frames, creates the
  output folder and returns.  No video is stitched, by no worker, and nothing is collected or
  reported.  The worker pool of lines 394-400 stands at module level, outside the function: it
  is run when the module is loaded, and raises \<^verbatim>\<open>NameError\<close> for \<^verbatim>\<open>options\<close> before a
  pool is created.
\<close>

theorem folder_run_stitches_no_video:
  "render_output_video folder_options
   \<and> video_folder_to_frames failing_stitch_env ''/in'' ''/data/frames'' False True (Some 1)
       (Some 5) False
     = Inr ([[''/data/frames/a.mp4/frame0.jpg'', ''/data/frames/a.mp4/frame1.jpg''],
             [''/data/frames/b.mp4/frame0.jpg'']],
            [30, 25], [''/in/a.mp4'', ''/in/b.mp4''])
   \<and> outcome (process_video_folder failing_stitch_env folder_options) start = Inr ()
   \<and> trace_of (process_video_folder failing_stitch_env folder_options) start =
     [Makedirs ''/out'', Makedirs ''/data/frames'', Print ExtractingFrames,
      VideoFolderToFrames ''/in'' ''/data/frames'' False True (Some 1) (Some 5) False,
      Print RunningMegaDetector,
      RunDetector ''MDV5A''
        [''/data/frames/a.mp4/frame0.jpg'', ''/data/frames/a.mp4/frame1.jpg'',
         ''/data/frames/b.mp4/frame0.jpg''] (Some (5 / 1000)) (Some 1) True None,
      WriteResults
        [(''/data/frames/a.mp4/frame0.jpg'', []), (''/data/frames/a.mp4/frame1.jpg'', []),
         (''/data/frames/b.mp4/frame0.jpg'', [])]
        ''/out/results.frames.json'' ''/data/frames'' ''MDV5A'' (FrameRates [30, 25]),
      Print ConvertingResults,
      FrameToVideoResults ''/out/results.frames.json'' ''/out/results.json'',
      Makedirs ''/render'',
      Visualize ''/out/results.frames.json'' ''/render'' ''/data/frames'' None True,
      Makedirs ''/out'']
   \<and> module_level_tail E module_globals w = (Inl (NameError ''options''), w)"
  by (simp add: folder_run_trace folder_run_outcome module_load_fails)
     (simp add: folder_options_def failing_stitch_env_def folder_env_def)

end
